theory Spec2Isabelle
  imports Complex_Main
begin

section \<open>Numbers\<close>

text \<open>
  The TypeScript type \<^verbatim>\<open>number\<close> is the IEEE 754 binary64 format. A value is a finite
  double \<open>Fin x\<close> (\<open>x\<close> the real it stands for), an infinity or \<open>NaN\<close>. Negative zero is
  not told apart from zero (\<^verbatim>\<open>===\<close> does not tell them apart either). Every arithmetic
  operation of the source is the exact operation on the reals followed by rounding to
  the nearest double, ties to the even significand, which is \<open>rnd\<close>.
\<close>

datatype number = Fin real | PInf | NInf | NaN

text \<open>\<open>ilog2 n\<close> is the position of the leading bit of \<open>n\<close>, \<open>pow2 k\<close> is \<open>2\<close> to the \<open>k\<close>.\<close>

fun ilog2 :: "nat \<Rightarrow> nat" where
  "ilog2 n = (if n < 2 then 0 else Suc (ilog2 (n div 2)))"

declare ilog2.simps [simp del]

definition pow2 :: "int \<Rightarrow> real" where
  "pow2 k = (if 0 \<le> k then 2 ^ nat k else 1 / 2 ^ nat (- k))"

text \<open>The binary exponent of a positive real: \<open>pow2 (expo x) \<le> x < pow2 (expo x + 1)\<close>.\<close>

definition expo :: "real \<Rightarrow> int" where
  "expo x = (if 1 \<le> x then int (ilog2 (nat \<lfloor>x\<rfloor>))
             else - int (ilog2 (nat (\<lceil>1 / x\<rceil> - 1)) + 1))"

definition roundEven :: "real \<Rightarrow> int" where
  "roundEven y =
     (let f = \<lfloor>y\<rfloor>; d = y - of_int f
      in if d < 1 / 2 then f else if 1 / 2 < d then f + 1 else if even f then f else f + 1)"

text \<open>
  Rounding to binary64: 53 bits of significand, the least exponent \<open>- 1022\<close> (below it
  the doubles are spaced \<open>pow2 (- 1074)\<close> apart), overflow to an infinity from
  \<open>pow2 1024\<close> on.
\<close>

definition rnd :: "real \<Rightarrow> number" where
  "rnd x =
     (if x = 0 then Fin 0
      else let e = max (expo \<bar>x\<bar>) (- 1022);
               u = pow2 (e - 52);
               y = of_int (roundEven (x / u)) * u
           in if pow2 1024 \<le> y then PInf else if y \<le> - pow2 1024 then NInf else Fin y)"

text \<open>
  A decimal literal of the source, such as \<^verbatim>\<open>0.1\<close>, denotes the double nearest to it.
  An integer literal below \<open>2 ^ 53\<close> denotes itself and is written \<open>Fin\<close>.
\<close>

definition lit :: "real \<Rightarrow> number" where
  "lit x = rnd x"

text \<open>\<^verbatim>\<open>+\<close>, unary and binary \<^verbatim>\<open>-\<close>, \<^verbatim>\<open>*\<close>, \<^verbatim>\<open><=\<close> and \<^verbatim>\<open><\<close> on numbers.\<close>

fun fadd :: "number \<Rightarrow> number \<Rightarrow> number" where
  "fadd NaN _ = NaN"
| "fadd _ NaN = NaN"
| "fadd (Fin x) (Fin y) = rnd (x + y)"
| "fadd PInf NInf = NaN"
| "fadd NInf PInf = NaN"
| "fadd PInf _ = PInf"
| "fadd _ PInf = PInf"
| "fadd NInf _ = NInf"
| "fadd _ NInf = NInf"

fun fneg :: "number \<Rightarrow> number" where
  "fneg (Fin x) = Fin (- x)"
| "fneg PInf = NInf"
| "fneg NInf = PInf"
| "fneg NaN = NaN"

fun fsign :: "number \<Rightarrow> real" where
  "fsign (Fin x) = sgn x"
| "fsign PInf = 1"
| "fsign NInf = - 1"
| "fsign NaN = 0"

fun fmul :: "number \<Rightarrow> number \<Rightarrow> number" where
  "fmul NaN _ = NaN"
| "fmul _ NaN = NaN"
| "fmul (Fin x) (Fin y) = rnd (x * y)"
| "fmul a b =
     (if fsign a * fsign b = 0 then NaN else if 0 < fsign a * fsign b then PInf else NInf)"

fun fle :: "number \<Rightarrow> number \<Rightarrow> bool" where
  "fle NaN _ = False"
| "fle _ NaN = False"
| "fle (Fin x) (Fin y) = (x \<le> y)"
| "fle NInf _ = True"
| "fle _ PInf = True"
| "fle _ _ = False"

fun flt :: "number \<Rightarrow> number \<Rightarrow> bool" where
  "flt NaN _ = False"
| "flt _ NaN = False"
| "flt (Fin x) (Fin y) = (x < y)"
| "flt PInf _ = False"
| "flt _ NInf = False"
| "flt _ _ = True"

instantiation number :: "{zero, one, plus, minus, times, ord}"
begin

definition zero_number :: number where
  "0 = Fin 0"

definition one_number :: number where
  "1 = Fin 1"

definition plus_number :: "number \<Rightarrow> number \<Rightarrow> number" where
  "a + b = fadd a b"

definition minus_number :: "number \<Rightarrow> number \<Rightarrow> number" where
  "a - b = fadd a (fneg b)"

definition times_number :: "number \<Rightarrow> number \<Rightarrow> number" where
  "a * b = fmul a b"

definition less_eq_number :: "number \<Rightarrow> number \<Rightarrow> bool" where
  "a \<le> b = fle a b"

definition less_number :: "number \<Rightarrow> number \<Rightarrow> bool" where
  "a < b = flt a b"

instance ..

end

text \<open>
  \<^verbatim>\<open>Math.max\<close> and \<^verbatim>\<open>Math.min\<close> return \<open>NaN\<close> when an argument is \<open>NaN\<close>. \<^verbatim>\<open>Math.round\<close>
  rounds to the nearest integer, a half towards plus infinity, and is exact.
\<close>

definition Math_max :: "number \<Rightarrow> number \<Rightarrow> number" where
  "Math_max a b = (if a = NaN \<or> b = NaN then NaN else if a \<le> b then b else a)"

definition Math_min :: "number \<Rightarrow> number \<Rightarrow> number" where
  "Math_min a b = (if a = NaN \<or> b = NaN then NaN else if a \<le> b then a else b)"

fun Math_round :: "number \<Rightarrow> number" where
  "Math_round (Fin x) = Fin (of_int \<lfloor>x + 1 / 2\<rfloor>)"
| "Math_round a = a"

fun isFinite :: "number \<Rightarrow> bool" where
  "isFinite (Fin _) = True"
| "isFinite _ = False"

section \<open>Data model of \<^verbatim>\<open>src/app/page.tsx\<close>\<close>

text \<open>
  Strings are \<^typ>\<open>string\<close>. Optional properties (\<^verbatim>\<open>example?\<close>) are options.
  The properties \<^verbatim>\<open>id\<close> and \<^verbatim>\<open>back\<close> are the fields \<open>cid\<close> and \<open>backText\<close>
  (\<open>id\<close> is a constant of HOL and \<open>back\<close> a keyword of Isar).
\<close>

datatype Lang = EN | ES | FR | RU

datatype Level = BEGINNER | INTERMEDIATE | ADVANCED

datatype CardKind = Vocab | Sentence

record Card =
  cid :: string
  targetLang :: Lang
  kind :: CardKind
  front :: string
  backText :: string
  example :: "string option"
  exampleTranslation :: "string option"
  due :: number
  intervalDays :: number
  ease :: number
  lapses :: number
  lastReviewed :: "number option"

section \<open>Helpers\<close>

text \<open>\<^verbatim>\<open>function clamp(n, a, b) { return Math.max(a, Math.min(b, n)); }\<close>\<close>

definition clamp :: "number \<Rightarrow> number \<Rightarrow> number \<Rightarrow> number" where
  "clamp n a b = Math_max a (Math_min b n)"

section \<open>SRS logic\<close>

text \<open>
  \<^verbatim>\<open>schedule(card, correct)\<close> reads the clock once (\<^verbatim>\<open>const now = Date.now()\<close>);
  the reading is the third argument of the model. The result is a new object made by
  the spread \<^verbatim>\<open>{ ...card, ease, intervalDays, due, lapses, lastReviewed }\<close>, so every
  other property is the input's.
\<close>

definition schedule :: "Card \<Rightarrow> bool \<Rightarrow> number \<Rightarrow> Card" where
  "schedule c correct now =
     (let ease0 = ease c;
          intervalDays0 = intervalDays c;
          ease1 = (if correct then clamp (ease0 + lit 0.1) (lit 1.3) (lit 2.8)
                   else clamp (ease0 - lit 0.2) (lit 1.3) (lit 2.8));
          intervalDays1 =
            (if correct
             then (if intervalDays0 = 0 then 1 else Math_round (intervalDays0 * ease1))
             else 0)
      in c\<lparr>ease := ease1,
           intervalDays := intervalDays1,
           due := now + (if correct then intervalDays1 else lit 0.1) * Fin 86400000,
           lapses := (if correct then lapses c else lapses c + 1),
           lastReviewed := Some now\<rparr>)"

text \<open>A card as \<^verbatim>\<open>downloadLanguagePack\<close> creates it, with the given identity and texts.\<close>

definition freshCard :: "string \<Rightarrow> Lang \<Rightarrow> CardKind \<Rightarrow> string \<Rightarrow> string \<Rightarrow> number \<Rightarrow> Card" where
  "freshCard i lang k f b now =
     \<lparr>cid = i, targetLang = lang, kind = k, front = f, backText = b,
      example = None, exampleTranslation = None,
      due = now, intervalDays = 0, ease = Fin 2, lapses = 0, lastReviewed = None\<rparr>"

text \<open>
  A sequence of reviews of one card: each review is its outcome and the clock reading of
  its \<^verbatim>\<open>schedule\<close> call. \<open>reviewAll\<close> is the card after the whole sequence,
  \<open>history\<close> the list of all cards on the way, the starting card first.
\<close>

fun reviewAll :: "Card \<Rightarrow> (bool \<times> number) list \<Rightarrow> Card" where
  "reviewAll c [] = c"
| "reviewAll c (r # rs) = reviewAll (schedule c (fst r) (snd r)) rs"

fun history :: "Card \<Rightarrow> (bool \<times> number) list \<Rightarrow> Card list" where
  "history c [] = [c]"
| "history c (r # rs) = c # history (schedule c (fst r) (snd r)) rs"

section \<open>Progress data model\<close>

text \<open>
  \<^verbatim>\<open>Profile.targetLang\<close> and \<^verbatim>\<open>Card.targetLang\<close> are two fields of the same name, as in
  the source; they are written qualified. \<^verbatim>\<open>Achievement.id\<close> is the field \<open>aid\<close>. The
  literal type \<^verbatim>\<open>"DE"\<close> of \<^verbatim>\<open>nativeLang\<close> is a string. The boolean of a review is
  called \<open>ok\<close> from here on, since \<open>correct\<close> now names the counter of \<open>DailyStat\<close>.
\<close>

record DailyStat =
  reviewed :: number
  correct :: number
  wrong :: number
  minutes :: number

record Profile =
  username :: string
  nativeLang :: string
  targetLang :: Lang
  level :: Level
  dailyGoal :: number
  xp :: number
  streak :: number
  bestStreak :: number
  lastActiveDay :: string
  createdAt :: number

record Achievement =
  aid :: string
  title :: string
  desc :: string
  icon :: string
  unlockedAt :: "number option"

text \<open>
  \<^verbatim>\<open>dailyStatsByLang: Record<Lang, Record<string, DailyStat>>\<close>: an object with one
  property for each of the four languages (a total function on \<^typ>\<open>Lang\<close>), each a
  dictionary from day keys to statistics.
\<close>

record AppData =
  cards :: "Card list"
  profile :: Profile
  achievements :: "Achievement list"
  dailyStatsByLang :: "Lang \<Rightarrow> (string \<rightharpoonup> DailyStat)"

section \<open>Language packs\<close>

text \<open>
  An entry of a pack is \<^verbatim>\<open>{ de: ..., x: ... }\<close>; the property \<^verbatim>\<open>x\<close> is the field
  \<open>tx\<close>. Characters outside ASCII are written as their UTF-8 bytes.
\<close>

record PackEntry =
  de :: string
  tx :: string

record Pack =
  vocab :: "PackEntry list"
  sentences :: "PackEntry list"

fun PACKS_API :: "Lang \<Rightarrow> Pack" where
  "PACKS_API EN =
     \<lparr>vocab = [\<lparr>de = ''laufen'', tx = ''to run''\<rparr>,
               \<lparr>de = ''essen'', tx = ''to eat''\<rparr>,
               \<lparr>de = ''Zeit'', tx = ''time''\<rparr>],
      sentences = [\<lparr>de = ''Ich habe Zeit.'', tx = ''I have time.''\<rparr>]\<rparr>"
| "PACKS_API ES =
     \<lparr>vocab = [\<lparr>de = ''Hallo'', tx = ''hola''\<rparr>,
               \<lparr>de = ''bitte'', tx = ''por favor''\<rparr>,
               \<lparr>de = ''danke'', tx = ''gracias''\<rparr>],
      sentences = [\<lparr>de = ''Gern geschehen.'', tx = ''De nada.''\<rparr>]\<rparr>"
| "PACKS_API FR =
     \<lparr>vocab = [\<lparr>de = ''Wasser'', tx = ''eau''\<rparr>,
               \<lparr>de = ''Brot'', tx = ''pain''\<rparr>],
      sentences = [\<lparr>de = ''Ein Baguette, bitte.'',
                    tx = ''Une baguette, s'il vous pla'' @ [CHR 0xC3, CHR 0xAE] @ ''t.''\<rparr>]\<rparr>"
| "PACKS_API RU =
     \<lparr>vocab = [\<lparr>de = ''Haus'', tx = [CHR 0xD0, CHR 0xB4, CHR 0xD0, CHR 0xBE, CHR 0xD0, CHR 0xBC]\<rparr>,
               \<lparr>de = ''Freund'',
                tx = [CHR 0xD0, CHR 0xB4, CHR 0xD1, CHR 0x80, CHR 0xD1, CHR 0x83, CHR 0xD0, CHR 0xB3]\<rparr>],
      sentences = [\<lparr>de = ''Wie geht es dir?'',
                    tx = [CHR 0xD0, CHR 0x9A, CHR 0xD0, CHR 0xB0, CHR 0xD0, CHR 0xBA] @ '' ''
                         @ [CHR 0xD0, CHR 0xB4, CHR 0xD0, CHR 0xB5, CHR 0xD0, CHR 0xBB, CHR 0xD0, CHR 0xB0]
                         @ ''?''\<rparr>]\<rparr>"

text \<open>The string a \<^verbatim>\<open>Lang\<close> value is at run time, as a template literal prints it.\<close>

fun langStr :: "Lang \<Rightarrow> string" where
  "langStr EN = ''EN''"
| "langStr ES = ''ES''"
| "langStr FR = ''FR''"
| "langStr RU = ''RU''"

text \<open>The key of the duplicate check, \<^verbatim>\<open>`${c.targetLang}-${c.front}`\<close>.\<close>

definition cardKey :: "Card \<Rightarrow> string" where
  "cardKey c = langStr (Card.targetLang c) @ ''-'' @ front c"

text \<open>
  \<^verbatim>\<open>newCards\<close>: one card for each vocabulary entry, then one for each sentence. Every
  card takes an identity from \<^verbatim>\<open>uid()\<close> (random) and its own reading of
  \<^verbatim>\<open>Date.now()\<close>; both come from the environment, as functions of the position of the
  card in creation order.
\<close>

definition newCards :: "Lang \<Rightarrow> Pack \<Rightarrow> (nat \<Rightarrow> string) \<Rightarrow> (nat \<Rightarrow> number) \<Rightarrow> Card list" where
  "newCards lang pack uid clock =
     map (\<lambda>(i, v). freshCard (uid i) lang Vocab (de v) (tx v) (clock i))
         (enumerate 0 (vocab pack))
     @ map (\<lambda>(i, s). freshCard (uid i) lang Sentence (de s) (tx s) (clock i))
           (enumerate (length (vocab pack)) (sentences pack))"

text \<open>
  \<^verbatim>\<open>filtered\<close>: the new cards whose key is not in the set \<^verbatim>\<open>existing\<close> of the keys of
  the cards of the previous state.
\<close>

definition filtered :: "Card list \<Rightarrow> Card list \<Rightarrow> Card list" where
  "filtered prevCards new =
     (let existing = set (map cardKey prevCards)
      in filter (\<lambda>c. cardKey c \<notin> existing) new)"

text \<open>
  The state update of \<^verbatim>\<open>downloadLanguagePack\<close>, the function given to \<^verbatim>\<open>setData\<close>.
  The state is \<^verbatim>\<open>AppData | null\<close>. The download overlay and its progress counter are
  display state and are left out.
\<close>

definition packUpdater :: "Lang \<Rightarrow> Card list \<Rightarrow> AppData option \<Rightarrow> AppData option" where
  "packUpdater lang new prev =
     (case prev of
        None \<Rightarrow> None
      | Some p \<Rightarrow>
          Some (p\<lparr>cards := cards p @ filtered (cards p) new,
                  profile := (profile p)\<lparr>Profile.targetLang := lang\<rparr>\<rparr>))"

text \<open>
  \<^verbatim>\<open>downloadLanguagePack(lang)\<close> takes its pack from the table. The same function with
  the pack as an argument is \<open>downloadLanguagePackWith\<close>.
\<close>

definition downloadLanguagePackWith ::
  "Pack \<Rightarrow> Lang \<Rightarrow> (nat \<Rightarrow> string) \<Rightarrow> (nat \<Rightarrow> number) \<Rightarrow> AppData option \<Rightarrow> AppData option" where
  "downloadLanguagePackWith pack lang uid clock prev = packUpdater lang (newCards lang pack uid clock) prev"

definition downloadLanguagePack ::
  "Lang \<Rightarrow> (nat \<Rightarrow> string) \<Rightarrow> (nat \<Rightarrow> number) \<Rightarrow> AppData option \<Rightarrow> AppData option" where
  "downloadLanguagePack lang uid clock prev = downloadLanguagePackWith (PACKS_API lang) lang uid clock prev"

section \<open>Reviews\<close>

text \<open>
  What a render of \<^verbatim>\<open>Page\<close> computes from the state: the cards of the current language
  that are due, and the first of them. \<^verbatim>\<open>Date.now()\<close> is read for each card.
\<close>

definition dueCards :: "AppData \<Rightarrow> (nat \<Rightarrow> number) \<Rightarrow> Card list" where
  "dueCards d clock =
     map snd (filter (\<lambda>(i, c). Card.targetLang c = Profile.targetLang (profile d) \<and> due c \<le> clock i)
                     (enumerate 0 (cards d)))"

definition nextCard :: "AppData \<Rightarrow> (nat \<Rightarrow> number) \<Rightarrow> Card option" where
  "nextCard d clock = (case dueCards d clock of [] \<Rightarrow> None | c # _ \<Rightarrow> Some c)"

text \<open>
  \<^verbatim>\<open>updatedCards\<close>: every card with the identity of the reviewed card is rescheduled, each
  \<^verbatim>\<open>schedule\<close> call with its own clock reading.
\<close>

definition updatedCards :: "AppData \<Rightarrow> Card \<Rightarrow> bool \<Rightarrow> (nat \<Rightarrow> number) \<Rightarrow> Card list" where
  "updatedCards d n ok clock =
     map (\<lambda>(i, c). if cid c = cid n then schedule c ok (clock i) else c) (enumerate 0 (cards d))"

text \<open>
  The body of the state update of \<^verbatim>\<open>handleReview\<close> on a state that is not null:
  \<^verbatim>\<open>stats[lang][today] || { reviewed: 0, correct: 0, wrong: 0, minutes: 0 }\<close> is the
  lookup with its default; the profile is copied with a new \<^verbatim>\<open>xp\<close> only. The
  assignment \<^verbatim>\<open>stats[lang][today] = ...\<close> writes into the dictionary of the language,
  which the copy \<^verbatim>\<open>{ ...prev.dailyStatsByLang }\<close> shares with the previous state.
  \<open>recordReview\<close> is the value of the new state after one run of the update on a
  state whose four dictionaries are four objects; the sharing itself is modelled by
  \<open>recordReviewRef\<close> below.
\<close>

definition recordReview :: "Lang \<Rightarrow> string \<Rightarrow> Card list \<Rightarrow> bool \<Rightarrow> AppData \<Rightarrow> AppData" where
  "recordReview lang today updated ok prev =
     (let stats = dailyStatsByLang prev;
          dayStat = (case stats lang today of
                       Some d \<Rightarrow> d
                     | None \<Rightarrow> \<lparr>reviewed = 0, correct = 0, wrong = 0, minutes = 0\<rparr>);
          stats' = stats(lang := (stats lang)(today \<mapsto>
                     dayStat\<lparr>reviewed := reviewed dayStat + 1,
                             correct := correct dayStat + (if ok then 1 else 0)\<rparr>))
      in prev\<lparr>cards := updated,
              profile := (profile prev)\<lparr>xp := xp (profile prev) + (if ok then Fin 10 else Fin 2)\<rparr>,
              dailyStatsByLang := stats'\<rparr>)"

definition reviewUpdater ::
  "Lang \<Rightarrow> string \<Rightarrow> Card list \<Rightarrow> bool \<Rightarrow> AppData option \<Rightarrow> AppData option" where
  "reviewUpdater lang today updated ok prev =
     (case prev of None \<Rightarrow> None | Some p \<Rightarrow> Some (recordReview lang today updated ok p))"

text \<open>
  \<^verbatim>\<open>handleReview(correct)\<close>. \<open>data\<close> and \<open>next\<close> are the state and the card of the render
  the handler belongs to, \<open>today\<close> is \<^verbatim>\<open>todayKey()\<close>, and \<open>prev\<close> is the state the update
  is applied to. Without a state or without a due card the handler returns at once.
  The tone it plays is left out.
\<close>

definition handleReview ::
  "AppData option \<Rightarrow> Card option \<Rightarrow> bool \<Rightarrow> (nat \<Rightarrow> number) \<Rightarrow> string
     \<Rightarrow> AppData option \<Rightarrow> AppData option" where
  "handleReview data next ok clock today prev =
     (case data of
        None \<Rightarrow> prev
      | Some d \<Rightarrow>
          (case next of
             None \<Rightarrow> prev
           | Some n \<Rightarrow>
               reviewUpdater (Profile.targetLang (profile d)) today
                 (updatedCards d n ok clock) ok prev))"

section \<open>The statistics as shared objects\<close>

text \<open>
  \<^verbatim>\<open>const stats = { ...prev.dailyStatsByLang }\<close> copies the four references, not the four
  dictionaries. To follow the assignment \<^verbatim>\<open>stats[lang][today] = ...\<close> the dictionaries
  are objects of a store (a map from addresses to dictionaries) and a state holds, for
  each language, the address of its dictionary. \<open>deref\<close> reads such a state as a value.
\<close>

type_synonym dictStore = "nat \<Rightarrow> (string \<rightharpoonup> DailyStat)"

record AppRef =
  rcards :: "Card list"
  rprofile :: Profile
  rachievements :: "Achievement list"
  rstats :: "Lang \<Rightarrow> nat"

definition deref :: "dictStore \<Rightarrow> AppRef \<Rightarrow> AppData" where
  "deref st r =
     \<lparr>cards = rcards r, profile = rprofile r, achievements = rachievements r,
      dailyStatsByLang = (\<lambda>l. st (rstats r l))\<rparr>"

text \<open>
  One run of the state update of \<^verbatim>\<open>handleReview\<close> on the store: the new state has a new
  \<^verbatim>\<open>dailyStatsByLang\<close> object with the old references, a new profile and the new cards;
  the dictionary of the language is written in place.
\<close>

definition recordReviewRef ::
  "Lang \<Rightarrow> string \<Rightarrow> Card list \<Rightarrow> bool \<Rightarrow> dictStore \<times> AppRef \<Rightarrow> dictStore \<times> AppRef" where
  "recordReviewRef lang today updated ok sp =
     (let st = fst sp;
          prev = snd sp;
          stats = rstats prev;
          dayStat = (case st (stats lang) today of
                       Some d \<Rightarrow> d
                     | None \<Rightarrow> \<lparr>reviewed = 0, correct = 0, wrong = 0, minutes = 0\<rparr>);
          st' = st(stats lang := (st (stats lang))(today \<mapsto>
                     dayStat\<lparr>reviewed := reviewed dayStat + 1,
                             correct := correct dayStat + (if ok then 1 else 0)\<rparr>))
      in (st',
          prev\<lparr>rcards := updated,
                rprofile := (rprofile prev)\<lparr>xp := xp (rprofile prev) + (if ok then Fin 10 else Fin 2)\<rparr>,
                rstats := stats\<rparr>))"

text \<open>
  React may run the function given to \<^verbatim>\<open>setData\<close> more than once on the same previous
  state (it does so twice in Strict Mode during development) and keeps the result of
  one run. \<open>runTwice\<close> is such a double run: the second run starts from the same \<open>prev\<close>,
  in the store the first run has left.
\<close>

definition runTwice ::
  "(dictStore \<times> AppRef \<Rightarrow> dictStore \<times> AppRef) \<Rightarrow> dictStore \<times> AppRef \<Rightarrow> dictStore \<times> AppRef" where
  "runTwice update sp = update (fst (update sp), snd sp)"

section \<open>Backup import\<close>

text \<open>
  TypeScript types are erased at run time: \<^verbatim>\<open>importData\<close> hands to \<^verbatim>\<open>setData\<close> whatever
  \<^verbatim>\<open>JSON.parse\<close> returned. The state is therefore a JSON value here, \<open>JNull\<close> being
  \<^verbatim>\<open>null\<close>. \<^verbatim>\<open>JSON.parse\<close> belongs to the JavaScript runtime; its outcome on the text of
  the file is an input of the model: it throws a \<^verbatim>\<open>SyntaxError\<close> or returns a value.
\<close>

datatype json =
  JNull
| JBool bool
| JNum number
| JStr string
| JArr "json list"
| JObj "(string \<times> json) list"

datatype JSONparse = SyntaxError | Value json

text \<open>
  The \<^verbatim>\<open>onload\<close> handler of \<^verbatim>\<open>importData\<close>; \<open>None\<close> is "no file chosen". The result
  is the new state and the text of the alert, if any.
\<close>

definition importData :: "JSONparse option \<Rightarrow> json \<Rightarrow> json \<times> string option" where
  "importData file data =
     (case file of
        None \<Rightarrow> (data, None)
      | Some SyntaxError \<Rightarrow> (data, Some ''Fehler beim Import!'')
      | Some (Value imported) \<Rightarrow> (imported, Some ''Backup erfolgreich geladen!''))"

text \<open>
  The top-level shape the specification asks an import to check, written from the
  specification's words (the source has no such check): a \<^verbatim>\<open>cards\<close> sequence, a
  \<^verbatim>\<open>profile\<close> record, an \<^verbatim>\<open>achievements\<close> sequence and a \<^verbatim>\<open>dailyStatsByLang\<close> mapping.
\<close>

fun isArr :: "json option \<Rightarrow> bool" where
  "isArr (Some (JArr _)) = True"
| "isArr _ = False"

fun isObj :: "json option \<Rightarrow> bool" where
  "isObj (Some (JObj _)) = True"
| "isObj _ = False"

fun spec_topLevelShape :: "json \<Rightarrow> bool" where
  "spec_topLevelShape (JObj fs) =
     (isArr (map_of fs ''cards'') \<and> isObj (map_of fs ''profile'')
      \<and> isArr (map_of fs ''achievements'') \<and> isObj (map_of fs ''dailyStatsByLang''))"
| "spec_topLevelShape _ = False"

section \<open>Backup export\<close>

text \<open>
  \<^verbatim>\<open>JSON.stringify\<close> and \<^verbatim>\<open>JSON.parse\<close> belong to the JavaScript runtime; they are modelled
  from their definition in ECMAScript. The text of a backup is represented by the JSON
  document it spells, that is by its abstract syntax, and a number token by the double
  it reads as: the decimal that \<^verbatim>\<open>JSON.stringify\<close> prints for a finite double reads back
  as that double. A value \<open>JObj\<close> lists the properties of an object in the order in
  which JavaScript enumerates them.

  \<^verbatim>\<open>JSON.stringify\<close> prints \<^verbatim>\<open>null\<close> for a number that is not finite and keeps everything
  else.
\<close>

fun JSON_stringify :: "json \<Rightarrow> json" where
  "JSON_stringify JNull = JNull"
| "JSON_stringify (JBool b) = JBool b"
| "JSON_stringify (JNum n) = (if isFinite n then JNum n else JNull)"
| "JSON_stringify (JStr s) = JStr s"
| "JSON_stringify (JArr xs) = JArr (map JSON_stringify xs)"
| "JSON_stringify (JObj ps) = JObj (map (map_prod id JSON_stringify) ps)"

text \<open>
  \<^verbatim>\<open>JSON.parse\<close> builds an object by defining the members of the document one after the
  other. A key that is already there keeps its place and takes the new value. A new
  key that is an array index (a canonical decimal below \<open>2 ^ 32 - 1\<close>) is enumerated
  among the array indices in ascending order, before all other keys; any other new key
  comes last.
\<close>

definition isDigit :: "char \<Rightarrow> bool" where
  "isDigit c = (48 \<le> (of_char c :: nat) \<and> (of_char c :: nat) \<le> 57)"

definition indexValue :: "string \<Rightarrow> nat" where
  "indexValue k = foldl (\<lambda>n c. 10 * n + (of_char c - 48)) 0 k"

definition isArrayIndex :: "string \<Rightarrow> bool" where
  "isArrayIndex k =
     (k \<noteq> [] \<and> list_all isDigit k \<and> (k = ''0'' \<or> hd k \<noteq> CHR ''0'')
      \<and> indexValue k < 2 ^ 32 - 1)"

fun insertIndex :: "string \<Rightarrow> json \<Rightarrow> (string \<times> json) list \<Rightarrow> (string \<times> json) list" where
  "insertIndex k v [] = [(k, v)]"
| "insertIndex k v (p # ps) =
     (if isArrayIndex (fst p) \<and> indexValue (fst p) < indexValue k
      then p # insertIndex k v ps
      else (k, v) # p # ps)"

definition setProp :: "(string \<times> json) list \<Rightarrow> string \<times> json \<Rightarrow> (string \<times> json) list" where
  "setProp ps kv =
     (if fst kv \<in> set (map fst ps) then map (\<lambda>p. if fst p = fst kv then kv else p) ps
      else if isArrayIndex (fst kv) then insertIndex (fst kv) (snd kv) ps
      else ps @ [kv])"

fun revive :: "json \<Rightarrow> json" where
  "revive JNull = JNull"
| "revive (JBool b) = JBool b"
| "revive (JNum n) = JNum n"
| "revive (JStr s) = JStr s"
| "revive (JArr xs) = JArr (map revive xs)"
| "revive (JObj ps) = JObj (foldl setProp [] (map (map_prod id revive) ps))"

text \<open>A text that \<^verbatim>\<open>JSON.stringify\<close> printed is well formed, so parsing it returns.\<close>

definition JSON_parse :: "json \<Rightarrow> JSONparse" where
  "JSON_parse doc = Value (revive doc)"

text \<open>
  \<^verbatim>\<open>exportData\<close> puts \<^verbatim>\<open>JSON.stringify(data)\<close> into a file named after \<^verbatim>\<open>todayKey()\<close>;
  the result is the name and the content of the file.
\<close>

definition exportData :: "json \<Rightarrow> string \<Rightarrow> string \<times> json" where
  "exportData data today = (''sprachapp_backup_'' @ today @ ''.json'', JSON_stringify data)"

text \<open>
  The values a state of the app can be at run time: every number is finite, and the
  properties of an object have distinct keys and stand in the order in which JavaScript
  enumerates them, the array indices first, in ascending order.
\<close>

definition keyBefore :: "string \<Rightarrow> string \<Rightarrow> bool" where
  "keyBefore a b =
     (if isArrayIndex a then (if isArrayIndex b then indexValue a < indexValue b else True)
      else \<not> isArrayIndex b)"

fun validJS :: "json \<Rightarrow> bool" where
  "validJS (JNum n) = isFinite n"
| "validJS (JArr xs) = list_all validJS xs"
| "validJS (JObj ps) =
     (distinct (map fst ps) \<and> sorted_wrt keyBefore (map fst ps)
      \<and> list_all validJS (map snd ps))"
| "validJS _ = True"

text \<open>
  The object a value of type \<^verbatim>\<open>AppData\<close> is at run time. A property that is \<open>None\<close> is
  absent. The dictionaries of \<^verbatim>\<open>dailyStatsByLang\<close> are enumerated in the order \<open>days\<close>
  gives for each language.
\<close>

definition optProp :: "string \<Rightarrow> ('a \<Rightarrow> json) \<Rightarrow> 'a option \<Rightarrow> (string \<times> json) list" where
  "optProp k f x = (case x of None \<Rightarrow> [] | Some y \<Rightarrow> [(k, f y)])"

fun kindStr :: "CardKind \<Rightarrow> string" where
  "kindStr Vocab = ''vocab''"
| "kindStr Sentence = ''sentence''"

fun levelStr :: "Level \<Rightarrow> string" where
  "levelStr BEGINNER = ''BEGINNER''"
| "levelStr INTERMEDIATE = ''INTERMEDIATE''"
| "levelStr ADVANCED = ''ADVANCED''"

definition jsCard :: "Card \<Rightarrow> json" where
  "jsCard c =
     JObj ([(''id'', JStr (cid c)), (''targetLang'', JStr (langStr (Card.targetLang c))),
            (''kind'', JStr (kindStr (kind c))), (''front'', JStr (front c)),
            (''back'', JStr (backText c))]
           @ optProp ''example'' JStr (example c)
           @ optProp ''exampleTranslation'' JStr (exampleTranslation c)
           @ [(''due'', JNum (due c)), (''intervalDays'', JNum (intervalDays c)),
              (''ease'', JNum (ease c)), (''lapses'', JNum (lapses c))]
           @ optProp ''lastReviewed'' JNum (lastReviewed c))"

definition jsProfile :: "Profile \<Rightarrow> json" where
  "jsProfile p =
     JObj [(''username'', JStr (username p)), (''nativeLang'', JStr (nativeLang p)),
           (''targetLang'', JStr (langStr (Profile.targetLang p))),
           (''level'', JStr (levelStr (level p))), (''dailyGoal'', JNum (dailyGoal p)),
           (''xp'', JNum (xp p)), (''streak'', JNum (streak p)),
           (''bestStreak'', JNum (bestStreak p)), (''lastActiveDay'', JStr (lastActiveDay p)),
           (''createdAt'', JNum (createdAt p))]"

definition jsAchievement :: "Achievement \<Rightarrow> json" where
  "jsAchievement a =
     JObj ([(''id'', JStr (aid a)), (''title'', JStr (title a)), (''desc'', JStr (desc a)),
            (''icon'', JStr (icon a))]
           @ optProp ''unlockedAt'' JNum (unlockedAt a))"

definition jsDailyStat :: "DailyStat \<Rightarrow> json" where
  "jsDailyStat s =
     JObj [(''reviewed'', JNum (reviewed s)), (''correct'', JNum (correct s)),
           (''wrong'', JNum (wrong s)), (''minutes'', JNum (minutes s))]"

definition jsDict :: "string list \<Rightarrow> (string \<rightharpoonup> DailyStat) \<Rightarrow> json" where
  "jsDict ks m = JObj (concat (map (\<lambda>k. optProp k jsDailyStat (m k)) ks))"

definition jsAppData :: "(Lang \<Rightarrow> string list) \<Rightarrow> AppData \<Rightarrow> json" where
  "jsAppData days x =
     JObj [(''cards'', JArr (map jsCard (cards x))),
           (''profile'', jsProfile (profile x)),
           (''achievements'', JArr (map jsAchievement (achievements x))),
           (''dailyStatsByLang'',
              JObj (map (\<lambda>l. (langStr l, jsDict (days l) (dailyStatsByLang x l)))
                        [EN, ES, FR, RU]))]"

text \<open>
  A value of type \<^verbatim>\<open>AppData\<close> all of whose numbers are finite, with the day keys listed
  without repetition and none of them an array index.
\<close>

definition finiteOpt :: "number option \<Rightarrow> bool" where
  "finiteOpt x = (case x of None \<Rightarrow> True | Some n \<Rightarrow> isFinite n)"

definition finiteCard :: "Card \<Rightarrow> bool" where
  "finiteCard c =
     (isFinite (due c) \<and> isFinite (intervalDays c) \<and> isFinite (ease c) \<and> isFinite (lapses c)
      \<and> finiteOpt (lastReviewed c))"

definition finiteProfile :: "Profile \<Rightarrow> bool" where
  "finiteProfile p =
     (isFinite (dailyGoal p) \<and> isFinite (xp p) \<and> isFinite (streak p)
      \<and> isFinite (bestStreak p) \<and> isFinite (createdAt p))"

definition finiteStat :: "DailyStat option \<Rightarrow> bool" where
  "finiteStat x =
     (case x of
        None \<Rightarrow> True
      | Some s \<Rightarrow> isFinite (reviewed s) \<and> isFinite (correct s) \<and> isFinite (wrong s)
                  \<and> isFinite (minutes s))"

definition validAppData :: "(Lang \<Rightarrow> string list) \<Rightarrow> AppData \<Rightarrow> bool" where
  "validAppData days x =
     (list_all finiteCard (cards x) \<and> finiteProfile (profile x)
      \<and> list_all (\<lambda>a. finiteOpt (unlockedAt a)) (achievements x)
      \<and> list_all (\<lambda>l. distinct (days l) \<and> list_all (\<lambda>k. \<not> isArrayIndex k) (days l)
                       \<and> list_all (\<lambda>k. finiteStat (dailyStatsByLang x l k)) (days l))
           [EN, ES, FR, RU])"

section \<open>Cards as objects of a store\<close>



section \<open>The initial state and example states\<close>

text \<open>
  The state \<^verbatim>\<open>Page\<close> starts from when nothing is stored; \<open>today\<close> is \<^verbatim>\<open>todayKey()\<close> and
  \<open>now\<close> is \<^verbatim>\<open>Date.now()\<close> at that moment.
\<close>

definition initialData :: "string \<Rightarrow> number \<Rightarrow> AppData" where
  "initialData today now =
     \<lparr>cards = [],
      profile =
        \<lparr>username = ''User'', nativeLang = ''DE'', targetLang = EN, level = BEGINNER,
         dailyGoal = Fin 10, xp = 0, streak = 0, bestStreak = 0,
         lastActiveDay = today, createdAt = now\<rparr>,
      achievements = [\<lparr>aid = ''welcome'', title = ''Willkommen'',
                       desc = ''Erste Sprache geladen'',
                       icon = [CHR 0xF0, CHR 0x9F, CHR 0x9A, CHR 0x80], unlockedAt = None\<rparr>],
      dailyStatsByLang = (\<lambda>_. Map.empty)\<rparr>"

text \<open>
  An example: the state after the English pack has been loaded into the initial state
  of 1 January 2024, the clock reading \<open>0\<close>, with the identities \<open>c0\<close> to \<open>c3\<close>.
\<close>

definition exampleUid :: "nat \<Rightarrow> string" where
  "exampleUid i = (if i = 0 then ''c0'' else if i = 1 then ''c1'' else if i = 2 then ''c2'' else ''c3'')"

definition exampleData :: AppData where
  "exampleData =
     (initialData ''2024-01-01'' 0)
       \<lparr>cards := [freshCard ''c0'' EN Vocab ''laufen'' ''to run'' 0,
                  freshCard ''c1'' EN Vocab ''essen'' ''to eat'' 0,
                  freshCard ''c2'' EN Vocab ''Zeit'' ''time'' 0,
                  freshCard ''c3'' EN Sentence ''Ich habe Zeit.'' ''I have time.'' 0]\<rparr>"

text \<open>The same state with its four dictionaries at the addresses \<open>0\<close> to \<open>3\<close>.\<close>

fun langIndex :: "Lang \<Rightarrow> nat" where
  "langIndex EN = 0"
| "langIndex ES = 1"
| "langIndex FR = 2"
| "langIndex RU = 3"

definition exampleRef :: AppRef where
  "exampleRef =
     \<lparr>rcards = cards exampleData, rprofile = profile exampleData,
      rachievements = achievements exampleData, rstats = langIndex\<rparr>"

definition exampleStore :: dictStore where
  "exampleStore = (\<lambda>_. Map.empty)"

text \<open>A backup without \<^verbatim>\<open>profile\<close>, and a complete state to import it into.\<close>

definition exampleBackupNoProfile :: json where
  "exampleBackupNoProfile =
     JObj [(''cards'', JArr []), (''achievements'', JArr []), (''dailyStatsByLang'', JObj [])]"

definition examplePriorState :: json where
  "examplePriorState =
     JObj [(''cards'', JArr []), (''profile'', JObj [(''xp'', JNum (Fin 40))]),
           (''achievements'', JArr []), (''dailyStatsByLang'', JObj [])]"

text \<open>The example state after one correct review on 2 January, and its day keys.\<close>

definition exampleReviewed :: AppData where
  "exampleReviewed = recordReview EN ''2024-01-02'' (cards exampleData) True exampleData"

definition exampleDays :: "Lang \<Rightarrow> string list" where
  "exampleDays l = (if l = EN then [''2024-01-02''] else [])"

text \<open>Nine correct reviews, and four incorrect ones.\<close>

definition exampleCorrect9 :: "(bool \<times> number) list" where
  "exampleCorrect9 =
     [(True, 0), (True, 0), (True, 0), (True, 0), (True, 0), (True, 0), (True, 0), (True, 0),
      (True, 0)]"

definition exampleIncorrect4 :: "(bool \<times> number) list" where
  "exampleIncorrect4 = [(False, 0), (False, 0), (False, 0), (False, 0)]"

text \<open>
  Fourteen reviews of a fresh card after which the rounding of the doubles shows: the
  ease is just below \<open>2.5\<close> and the interval is two days, where exact arithmetic
  would give \<open>2.5\<close> and three days.
\<close>

definition exampleTrace14 :: "(bool \<times> number) list" where
  "exampleTrace14 =
     map (\<lambda>b. (b, 0))
       [True, True, True, True, True, True, True, True, False, True, False, False, True, True]"

text \<open>A card at the upper bound of the ease, and one at the lower bound.\<close>

definition exampleCardHigh :: Card where
  "exampleCardHigh =
     (freshCard ''c0'' EN Vocab ''laufen'' ''to run'' 0)\<lparr>ease := lit 2.8, intervalDays := Fin 5\<rparr>"


section \<open>Rounding to the nearest double\<close>

lemma ilog2_1: "ilog2 (Suc 0) = 0"
  by (simp add: ilog2.simps)

lemma ilog2_0: "ilog2 0 = 0"
  by (simp add: ilog2.simps)

lemma ilog2_num:
  "ilog2 (numeral k) = (if numeral k < (2::nat) then 0 else Suc (ilog2 (numeral k div 2)))"
  by (rule ilog2.simps)

lemmas rnd_eval = rnd_def expo_def pow2_def roundEven_def ilog2_num ilog2_1 ilog2_0 Let_def

lemmas num_ops = plus_number_def minus_number_def times_number_def less_eq_number_def
  less_number_def zero_number_def one_number_def

lemma lit_01: "lit 0.1 = Fin (3602879701896397 / 36028797018963968)"
  by (simp add: lit_def rnd_eval)

lemma lit_02: "lit 0.2 = Fin (3602879701896397 / 18014398509481984)"
  by (simp add: lit_def rnd_eval)

lemma lit_13: "lit 1.3 = Fin (5854679515581645 / 4503599627370496)"
  by (simp add: lit_def rnd_eval)

lemma lit_28: "lit 2.8 = Fin (3152519739159347 / 1125899906842624)"
  by (simp add: lit_def rnd_eval)

lemma lit_21: "lit 2.1 = Fin (4728779608739021 / 2251799813685248)"
  by (simp add: lit_def rnd_eval)

lemma lit_22: "lit 2.2 = Fin (2476979795053773 / 1125899906842624)"
  by (simp add: lit_def rnd_eval)

lemma lit_16: "lit 1.6 = Fin (3602879701896397 / 2251799813685248)"
  by (simp add: lit_def rnd_eval)

lemma lit_02n: "lit (1 / 5) = Fin (3602879701896397 / 18014398509481984)"
  using lit_02 by simp

lemma lit_28n: "lit (14 / 5) = Fin (3152519739159347 / 1125899906842624)"
  using lit_28 by simp

lemma lit_22n: "lit (11 / 5) = Fin (2476979795053773 / 1125899906842624)"
  using lit_22 by simp

lemma lit_16n: "lit (8 / 5) = Fin (3602879701896397 / 2251799813685248)"
  using lit_16 by simp

lemmas lit_vals = lit_01 lit_02 lit_02n lit_13 lit_28 lit_28n lit_21 lit_22 lit_22n lit_16 lit_16n

lemma ms_01: "lit 0.1 * Fin 86400000 = Fin 8640000"
  by (simp add: lit_vals num_ops rnd_eval)

text \<open>
  The exponent brackets its argument, and rounding moves a real by at most half a unit
  in the last place.
\<close>

lemma ilog2_bounds: "0 < n \<Longrightarrow> 2 ^ ilog2 n \<le> n \<and> n < 2 ^ Suc (ilog2 n)"
proof (induction n rule: ilog2.induct)
  case (1 n)
  show ?case
  proof (cases "n < 2")
    case True
    with "1.prems" have "n = 1" by simp
    then show ?thesis by (simp add: ilog2.simps)
  next
    case False
    then have pos: "0 < n div 2" by simp
    from "1.IH" [OF False pos]
    have lo: "2 ^ ilog2 (n div 2) \<le> n div 2" and hi: "n div 2 < 2 ^ Suc (ilog2 (n div 2))"
      by simp_all
    have e: "ilog2 n = Suc (ilog2 (n div 2))" using False by (simp add: ilog2.simps)
    from lo have "2 * 2 ^ ilog2 (n div 2) \<le> 2 * (n div 2)" by simp
    also have "\<dots> \<le> n" by simp
    finally have a: "2 ^ ilog2 n \<le> n" by (simp add: e)
    from hi have "n div 2 + 1 \<le> 2 ^ Suc (ilog2 (n div 2))" by simp
    then have "2 * (n div 2 + 1) \<le> 2 * 2 ^ Suc (ilog2 (n div 2))" by (simp only: mult_le_mono2)
    moreover have "n < 2 * (n div 2 + 1)" by presburger
    ultimately have b: "n < 2 ^ Suc (ilog2 n)" by (simp add: e)
    from a b show ?thesis by simp
  qed
qed

lemma expo_bounds:
  assumes "0 < x"
  shows "pow2 (expo x) \<le> x \<and> x < pow2 (expo x + 1)"
proof (cases "1 \<le> x")
  case True
  let ?n = "nat \<lfloor>x\<rfloor>"
  from True have n: "0 < ?n" by simp
  from ilog2_bounds [OF n] have lo: "2 ^ ilog2 ?n \<le> ?n" and hi: "?n < 2 ^ Suc (ilog2 ?n)"
    by simp_all
  from True have fl: "real ?n \<le> x" "x < real ?n + 1" by linarith+
  from lo have "(2::real) ^ ilog2 ?n \<le> real ?n"
    by (metis of_nat_le_iff of_nat_numeral of_nat_power)
  with fl have a: "2 ^ ilog2 ?n \<le> x" by linarith
  from hi have "?n + 1 \<le> 2 ^ Suc (ilog2 ?n)" by simp
  then have "real (?n + 1) \<le> 2 ^ Suc (ilog2 ?n)"
    by (metis of_nat_le_iff of_nat_numeral of_nat_power)
  then have "real ?n + 1 \<le> 2 ^ Suc (ilog2 ?n)" by (simp only: of_nat_add of_nat_1)
  with fl have b: "x < 2 ^ Suc (ilog2 ?n)" by linarith
  from a b True show ?thesis
    by (simp add: expo_def pow2_def nat_add_distrib)
next
  case False
  let ?y = "1 / x"
  let ?m = "nat (\<lceil>?y\<rceil> - 1)"
  from False assms have y: "1 < ?y" by simp
  then have c: "2 \<le> \<lceil>?y\<rceil>" by linarith
  then have m: "0 < ?m" by simp
  from ilog2_bounds [OF m] have lo: "2 ^ ilog2 ?m \<le> ?m" and hi: "?m < 2 ^ Suc (ilog2 ?m)"
    by simp_all
  from c have my: "real ?m < ?y" "?y \<le> real ?m + 1" by linarith+
  from lo have "(2::real) ^ ilog2 ?m \<le> real ?m"
    by (metis of_nat_le_iff of_nat_numeral of_nat_power)
  with my have a: "2 ^ ilog2 ?m < ?y" by linarith
  from hi have "?m + 1 \<le> 2 ^ Suc (ilog2 ?m)" by simp
  then have "real (?m + 1) \<le> 2 ^ Suc (ilog2 ?m)"
    by (metis of_nat_le_iff of_nat_numeral of_nat_power)
  then have "real ?m + 1 \<le> 2 ^ Suc (ilog2 ?m)" by (simp only: of_nat_add of_nat_1)
  with my have b: "?y \<le> 2 ^ Suc (ilog2 ?m)" by linarith
  from a assms have a': "x < 1 / 2 ^ ilog2 ?m"
    by (simp add: field_simps)
  from b assms have b': "1 / 2 ^ Suc (ilog2 ?m) \<le> x"
    by (simp add: field_simps)
  have e: "expo x = - int (Suc (ilog2 ?m))" using False by (simp add: expo_def)
  show ?thesis
  proof (cases "ilog2 ?m")
    case 0
    with a' b' show ?thesis by (simp add: e pow2_def)
  next
    case (Suc k)
    with a' b' show ?thesis by (simp add: e pow2_def nat_add_distrib)
  qed
qed

lemma roundEven_near: "\<bar>of_int (roundEven y) - y\<bar> \<le> 1 / 2"
  unfolding roundEven_def Let_def by (auto simp: abs_le_iff)

lemma pow2_pos: "0 < pow2 k"
  by (simp add: pow2_def)

lemma rnd_half_ulp:
  assumes r: "rnd x = Fin y"
  shows "\<bar>y - x\<bar> \<le> pow2 (max (expo \<bar>x\<bar>) (- 1022) - 52) / 2"
proof (cases "x = 0")
  case True
  with r have "y = 0" by (simp add: rnd_def)
  with True pow2_pos [of "max (expo \<bar>x\<bar>) (- 1022) - 52"] show ?thesis by simp
next
  case False
  define u where "u = pow2 (max (expo \<bar>x\<bar>) (- 1022) - 52)"
  have u: "0 < u" unfolding u_def by (rule pow2_pos)
  define z where "z = of_int (roundEven (x / u)) * u"
  from r False have "y = z"
    by (simp add: rnd_def Let_def u_def [symmetric] z_def [symmetric] split: if_splits)
  have "\<bar>of_int (roundEven (x / u)) - x / u\<bar> \<le> 1 / 2" by (rule roundEven_near)
  then have "\<bar>of_int (roundEven (x / u)) - x / u\<bar> * u \<le> 1 / 2 * u"
    using u by (simp add: mult_right_mono)
  moreover have "\<bar>of_int (roundEven (x / u)) - x / u\<bar> * u = \<bar>z - x\<bar>"
  proof -
    have "\<bar>of_int (roundEven (x / u)) - x / u\<bar> * u
            = \<bar>(of_int (roundEven (x / u)) - x / u) * u\<bar>"
      using u by (simp add: abs_mult)
    also have "(of_int (roundEven (x / u)) - x / u) * u = z - x"
      using u unfolding z_def by (simp add: left_diff_distrib)
    finally show ?thesis .
  qed
  ultimately have "\<bar>z - x\<bar> \<le> u / 2" by simp
  with \<open>y = z\<close> show ?thesis by (simp add: u_def)
qed

lemma pow2_big: "5 \<le> pow2 1024"
  by (simp add: pow2_def)

lemma rnd_binade:
  assumes e: "expo x = e" and x: "0 < x" and u: "pow2 (e - 52) = u" and "0 < u"
    and le: "- 1022 \<le> e" and small: "x < 4" "u \<le> 1"
  shows "\<exists>y. rnd x = Fin y \<and> \<bar>y - x\<bar> \<le> u / 2"
proof -
  define y where "y = of_int (roundEven (x / u)) * u"
  have "\<bar>of_int (roundEven (x / u)) - x / u\<bar> \<le> 1 / 2" by (rule roundEven_near)
  then have "\<bar>of_int (roundEven (x / u)) - x / u\<bar> * u \<le> 1 / 2 * u"
    using \<open>0 < u\<close> by (simp add: mult_right_mono)
  moreover have "\<bar>of_int (roundEven (x / u)) - x / u\<bar> * u = \<bar>y - x\<bar>"
  proof -
    have "\<bar>of_int (roundEven (x / u)) - x / u\<bar> * u
            = \<bar>(of_int (roundEven (x / u)) - x / u) * u\<bar>"
      using \<open>0 < u\<close> by (simp add: abs_mult)
    also have "(of_int (roundEven (x / u)) - x / u) * u = y - x"
      using \<open>0 < u\<close> unfolding y_def by (simp add: left_diff_distrib)
    finally show ?thesis .
  qed
  ultimately have near: "\<bar>y - x\<bar> \<le> u / 2" by simp
  with small x have "y < 5" "- 5 < y" by linarith+
  with pow2_big have "\<not> pow2 1024 \<le> y" "\<not> y \<le> - pow2 1024" by linarith+
  moreover have "\<bar>x\<bar> = x" "x \<noteq> 0" "max e (- 1022) = e" using x le by simp_all
  ultimately have "rnd x = Fin y"
    by (simp add: rnd_def e u y_def Let_def)
  with near show ?thesis by blast
qed

lemma rnd_near:
  assumes "1 \<le> x" "x < 4"
  shows "\<exists>y. rnd x = Fin y \<and> \<bar>y - x\<bar> \<le> 1 / 2 ^ 52"
proof (cases "x < 2")
  case True
  with assms have fl: "\<lfloor>x\<rfloor> = 1" by linarith
  have e: "expo x = 0" using assms by (simp add: expo_def fl ilog2_1)
  have u: "pow2 (0 - 52) = 1 / 2 ^ 52" by (simp add: pow2_def)
  from rnd_binade [OF e _ u] assms obtain y
    where "rnd x = Fin y" "\<bar>y - x\<bar> \<le> 1 / 2 ^ 52 / 2" by auto
  moreover have "(1::real) / 2 ^ 52 / 2 \<le> 1 / 2 ^ 52" by simp
  ultimately show ?thesis by (metis order_trans)
next
  case False
  with assms have "\<lfloor>x\<rfloor> = 2 \<or> \<lfloor>x\<rfloor> = 3" by linarith
  then have "ilog2 (nat \<lfloor>x\<rfloor>) = 1" by (auto simp: ilog2_num ilog2_1)
  then have e: "expo x = 1" using assms False by (simp add: expo_def)
  have u: "pow2 (1 - 52) = 1 / 2 ^ 51" by (simp add: pow2_def)
  from rnd_binade [OF e _ u] assms False show ?thesis by simp
qed

section \<open>The scheduler\<close>

lemma fle_trans: "(a::number) \<le> b \<Longrightarrow> b \<le> c \<Longrightarrow> a \<le> c"
  by (cases a; cases b; cases c) (simp_all add: less_eq_number_def)

lemma clamp_Fin:
  "a \<le> b \<Longrightarrow> clamp (Fin y) (Fin a) (Fin b) = Fin (max a (min b y))"
  by (auto simp: clamp_def Math_max_def Math_min_def less_eq_number_def max_def min_def)

lemma clamp_cases:
  "a \<le> b \<Longrightarrow>
   clamp v (Fin a) (Fin b) =
     (if v = NaN then NaN else if v < Fin a then Fin a else if Fin b < v then Fin b else v)"
  by (cases v)
     (auto simp: clamp_def Math_max_def Math_min_def less_eq_number_def less_number_def)

lemma clamp_range:
  "a \<le> b \<Longrightarrow> v \<noteq> NaN \<Longrightarrow>
     Fin a \<le> clamp v (Fin a) (Fin b) \<and> clamp v (Fin a) (Fin b) \<le> Fin b"
  by (cases v)
     (auto simp: clamp_def Math_max_def Math_min_def less_eq_number_def)

lemma fadd_Fin_notNaN: "a \<noteq> NaN \<Longrightarrow> a + Fin t \<noteq> NaN" "a \<noteq> NaN \<Longrightarrow> a - Fin t \<noteq> NaN"
  by (cases a; simp add: num_ops rnd_def Let_def)+

lemma schedule_ease:
  "ease (schedule c ok now) =
     (if ok then clamp (ease c + lit 0.1) (lit 1.3) (lit 2.8)
      else clamp (ease c - lit 0.2) (lit 1.3) (lit 2.8))"
  by (simp add: schedule_def Let_def)

lemma schedule_ease_range:
  assumes "ease c \<noteq> NaN"
  shows "lit 1.3 \<le> ease (schedule c ok now) \<and> ease (schedule c ok now) \<le> lit 2.8"
proof -
  have ab: "(5854679515581645 / 4503599627370496 :: real) \<le> 3152519739159347 / 1125899906842624"
    by simp
  from assms have "ease c + lit 0.1 \<noteq> NaN" "ease c - lit 0.2 \<noteq> NaN"
    by (simp_all add: lit_vals fadd_Fin_notNaN)
  then show ?thesis
    using clamp_range [OF ab] by (simp add: schedule_ease lit_vals)
qed

lemma in_range_notNaN: "lit 1.3 \<le> a \<Longrightarrow> a \<noteq> NaN"
  by (cases a) (simp_all add: less_eq_number_def lit_vals)

text \<open>For an ease within the bounds the sum with 0.1 is finite and above the ease.\<close>

lemma ease_plus:
  assumes "lit 1.3 \<le> Fin x" "Fin x \<le> lit 2.8"
  shows "\<exists>y. Fin x + lit 0.1 = Fin y \<and> x < y \<and> 5854679515581645 / 4503599627370496 \<le> y"
proof -
  from assms have lo: "5854679515581645 / 4503599627370496 \<le> x"
    and hi: "x \<le> 3152519739159347 / 1125899906842624"
    by (simp_all add: lit_vals less_eq_number_def)
  let ?s = "x + 3602879701896397 / 36028797018963968"
  from lo hi have "1 \<le> ?s" "?s < 4" by simp_all
  from rnd_near [OF this] obtain y where y: "rnd ?s = Fin y" "\<bar>y - ?s\<bar> \<le> 1 / 2 ^ 52" by blast
  from y(2) have "?s - 1 / 2 ^ 52 \<le> y" by linarith
  with lo have "x < y" "5854679515581645 / 4503599627370496 \<le> y" by simp_all
  with y(1) show ?thesis by (simp add: lit_vals plus_number_def)
qed

lemma schedule_correct_ease:
  assumes "lit 1.3 \<le> ease c" "ease c \<le> lit 2.8"
  shows "ease (schedule c True now) =
           (if lit 2.8 \<le> ease c + lit 0.1 then lit 2.8 else ease c + lit 0.1)"
    and "ease c \<le> ease (schedule c True now)"
proof -
  from assms obtain x where x: "ease c = Fin x"
    by (cases "ease c") (simp_all add: less_eq_number_def lit_vals)
  from ease_plus [of x] assms x obtain y
    where y: "Fin x + lit 0.1 = Fin y" "x < y" "5854679515581645 / 4503599627370496 \<le> y"
    by auto
  from y(1) have y': "Fin x + Fin (3602879701896397 / 36028797018963968) = Fin y"
    by (simp add: lit_vals)
  from assms x have hi: "x \<le> 3152519739159347 / 1125899906842624"
    by (simp add: lit_vals less_eq_number_def)
  have e: "ease (schedule c True now)
             = Fin (max (5854679515581645 / 4503599627370496)
                        (min (3152519739159347 / 1125899906842624) y))"
    by (simp add: schedule_ease x y' lit_vals clamp_Fin)
  from y(3) show "ease (schedule c True now) =
           (if lit 2.8 \<le> ease c + lit 0.1 then lit 2.8 else ease c + lit 0.1)"
    by (simp add: e x y' lit_vals less_eq_number_def max_def min_def)
  from y(2) hi show "ease c \<le> ease (schedule c True now)"
    by (simp add: e x less_eq_number_def max_def min_def)
qed


lemma schedule_incorrect_ease:
  "ease (schedule c False now) =
     (if ease c - lit 0.2 = NaN then NaN
      else if ease c - lit 0.2 < lit 1.3 then lit 1.3
      else if lit 2.8 < ease c - lit 0.2 then lit 2.8
      else ease c - lit 0.2)"
proof -
  have ab: "(5854679515581645 / 4503599627370496 :: real) \<le> 3152519739159347 / 1125899906842624"
    by simp
  show ?thesis
    using clamp_cases [OF ab, of "ease c - lit 0.2"] by (simp add: schedule_ease lit_vals)
qed

text \<open>
  C1. On a correct review of a well-formed card (ease within \<open>[1.3, 2.8]\<close>) at any
  instant, the new ease is the old one plus \<open>0.1\<close>, held at \<open>2.8\<close> from above, and lies
  within the bounds. For every card the new interval is \<open>1\<close> when the old one is \<open>0\<close>
  and the rounded product of the old interval and the new ease otherwise, \<open>due\<close> is the
  instant plus the new interval times \<open>86400000\<close>, \<open>lapses\<close> is unchanged and
  \<open>lastReviewed\<close> is the instant. All arithmetic is that of the doubles. A card with
  interval \<open>0\<close> and ease \<open>2.0\<close> reviewed correct at \<open>0\<close> gets interval \<open>1\<close>, ease \<open>2.1\<close>
  and \<open>due = 86400000\<close>; reviewed correct again at \<open>86400000\<close> it gets interval \<open>2\<close>,
  ease \<open>2.2\<close> and \<open>due = 86400000 + 172800000\<close>. From ease \<open>2.2\<close> the next ease is
  the double \<open>2.3000000000000003\<close>, and from ease \<open>2.8\<close> it stays \<open>2.8\<close>.
\<close>

theorem schedule_on_correct:
  "(lit 1.3 \<le> ease c \<and> ease c \<le> lit 2.8 \<longrightarrow>
      ease (schedule c True now)
        = (if lit 2.8 \<le> ease c + lit 0.1 then lit 2.8 else ease c + lit 0.1)
      \<and> lit 1.3 \<le> ease (schedule c True now) \<and> ease (schedule c True now) \<le> lit 2.8)
   \<and> intervalDays (schedule c True now) =
       (if intervalDays c = 0 then 1
        else Math_round (intervalDays c * ease (schedule c True now)))
   \<and> due (schedule c True now) = now + intervalDays (schedule c True now) * Fin 86400000
   \<and> lapses (schedule c True now) = lapses c
   \<and> lastReviewed (schedule c True now) = Some now
   \<and> schedule (c\<lparr>intervalDays := 0, ease := Fin 2\<rparr>) True 0
       = c\<lparr>intervalDays := 1, ease := lit 2.1, due := Fin 86400000, lastReviewed := Some 0\<rparr>
   \<and> schedule (c\<lparr>intervalDays := 1, ease := lit 2.1, due := Fin 86400000,
                   lastReviewed := Some 0\<rparr>) True (Fin 86400000)
       = c\<lparr>intervalDays := Fin 2, ease := lit 2.2, due := Fin (86400000 + 172800000),
            lastReviewed := Some (Fin 86400000)\<rparr>
   \<and> ease (schedule (c\<lparr>ease := lit 2.2\<rparr>) True now) = Fin (5179139571476071 / 2251799813685248)
   \<and> ease (schedule (c\<lparr>ease := lit 2.8\<rparr>) True now) = lit 2.8"
proof -
  have wf: "ease (schedule c True now)
              = (if lit 2.8 \<le> ease c + lit 0.1 then lit 2.8 else ease c + lit 0.1)
            \<and> lit 1.3 \<le> ease (schedule c True now) \<and> ease (schedule c True now) \<le> lit 2.8"
    if "lit 1.3 \<le> ease c" "ease c \<le> lit 2.8"
    using schedule_correct_ease(1) [OF that] schedule_ease_range [OF in_range_notNaN [OF that(1)]]
    by blast
  have s1: "schedule (c\<lparr>intervalDays := 0, ease := Fin 2\<rparr>) True 0
       = c\<lparr>intervalDays := 1, ease := lit 2.1, due := Fin 86400000, lastReviewed := Some 0\<rparr>"
    by (simp add: schedule_def lit_vals clamp_Fin num_ops rnd_eval)
  have s2: "schedule (c\<lparr>intervalDays := 1, ease := lit 2.1, due := Fin 86400000,
                   lastReviewed := Some 0\<rparr>) True (Fin 86400000)
       = c\<lparr>intervalDays := Fin 2, ease := lit 2.2, due := Fin (86400000 + 172800000),
            lastReviewed := Some (Fin 86400000)\<rparr>"
    by (simp add: schedule_def lit_vals clamp_Fin num_ops rnd_eval)
  have s3: "ease (schedule (c\<lparr>ease := lit 2.2\<rparr>) True now) = Fin (5179139571476071 / 2251799813685248)"
    by (simp add: schedule_ease lit_vals clamp_Fin num_ops rnd_eval)
  have s4: "ease (schedule (c\<lparr>ease := lit 2.8\<rparr>) True now) = lit 2.8"
    by (simp add: schedule_ease lit_vals clamp_Fin num_ops rnd_eval)
  have rest: "intervalDays (schedule c True now) =
       (if intervalDays c = 0 then 1
        else Math_round (intervalDays c * ease (schedule c True now)))
   \<and> due (schedule c True now) = now + intervalDays (schedule c True now) * Fin 86400000
   \<and> lapses (schedule c True now) = lapses c
   \<and> lastReviewed (schedule c True now) = Some now"
    by (simp add: schedule_def Let_def)
  from wf s1 s2 s3 s4 rest show ?thesis by blast
qed

theorem schedule_on_correct_witness:
  "lit 1.3 \<le> ease exampleCardHigh \<and> ease exampleCardHigh \<le> lit 2.8
   \<and> ease (schedule exampleCardHigh True (Fin 1000)) = lit 2.8
   \<and> intervalDays (schedule exampleCardHigh True (Fin 1000)) = Fin 14
   \<and> due (schedule exampleCardHigh True (Fin 1000)) = Fin 1209601000"
proof -
  let ?c' = "schedule exampleCardHigh True (Fin 1000)"
  have h: "lit 1.3 \<le> ease exampleCardHigh \<and> ease exampleCardHigh \<le> lit 2.8"
    by (simp add: exampleCardHigh_def lit_vals less_eq_number_def)
  from h schedule_on_correct [of exampleCardHigh "Fin 1000"]
  have e0: "ease ?c' = (if lit 2.8 \<le> ease exampleCardHigh + lit 0.1 then lit 2.8
                        else ease exampleCardHigh + lit 0.1)"
    and d0: "intervalDays ?c' = (if intervalDays exampleCardHigh = 0 then 1
                                 else Math_round (intervalDays exampleCardHigh * ease ?c'))"
    and t0: "due ?c' = Fin 1000 + intervalDays ?c' * Fin 86400000"
    by blast+
  have "lit 2.8 \<le> ease exampleCardHigh + lit 0.1"
    by (simp add: exampleCardHigh_def lit_vals num_ops rnd_eval)
  with e0 have e: "ease ?c' = lit 2.8" by (simp only: if_True)
  have "intervalDays exampleCardHigh \<noteq> 0"
    by (simp add: exampleCardHigh_def zero_number_def)
  with d0 have "intervalDays ?c' = Math_round (intervalDays exampleCardHigh * ease ?c')"
    by (simp only: if_False)
  also have "\<dots> = Fin 14"
    unfolding e by (simp add: exampleCardHigh_def lit_vals num_ops rnd_eval)
  finally have d: "intervalDays ?c' = Fin 14" .
  have "due ?c' = Fin 1209601000"
    unfolding t0 d by (simp add: num_ops rnd_eval)
  with h e d show ?thesis by blast
qed

text \<open>
  C2. On an incorrect review of any card at any instant, the new ease is the old one
  minus \<open>0.2\<close>, held at \<open>1.3\<close> from below and at \<open>2.8\<close> from above (and \<open>NaN\<close> when the
  difference is), the new interval is \<open>0\<close>, \<open>due\<close> is the instant plus
  \<open>0.1 * 86400000\<close>, which is \<open>8640000\<close>, \<open>lapses\<close> is one more and \<open>lastReviewed\<close> is
  the instant. From ease \<open>1.3\<close> the ease stays \<open>1.3\<close>; from ease \<open>1.6\<close> it is the double
  \<open>1.4000000000000001\<close>.
\<close>

theorem schedule_on_incorrect:
  "ease (schedule c False now) =
     (if ease c - lit 0.2 = NaN then NaN
      else if ease c - lit 0.2 < lit 1.3 then lit 1.3
      else if lit 2.8 < ease c - lit 0.2 then lit 2.8
      else ease c - lit 0.2)
   \<and> intervalDays (schedule c False now) = 0
   \<and> due (schedule c False now) = now + lit 0.1 * Fin 86400000
   \<and> lit 0.1 * Fin 86400000 = Fin 8640000
   \<and> lapses (schedule c False now) = lapses c + 1
   \<and> lastReviewed (schedule c False now) = Some now
   \<and> ease (schedule (c\<lparr>ease := lit 1.3, intervalDays := Fin 5\<rparr>) False now) = lit 1.3
   \<and> ease (schedule (c\<lparr>ease := lit 1.6\<rparr>) False now) = Fin (6305039478318695 / 4503599627370496)
   \<and> ease (schedule (c\<lparr>ease := PInf\<rparr>) False now) = lit 2.8
   \<and> ease (schedule (c\<lparr>ease := NaN\<rparr>) False now) = NaN"
proof -
  have rest: "intervalDays (schedule c False now) = 0
   \<and> due (schedule c False now) = now + lit 0.1 * Fin 86400000
   \<and> lapses (schedule c False now) = lapses c + 1
   \<and> lastReviewed (schedule c False now) = Some now"
    by (simp add: schedule_def Let_def)
  have s1: "ease (schedule (c\<lparr>ease := lit 1.3, intervalDays := Fin 5\<rparr>) False now) = lit 1.3"
    by (simp add: schedule_ease lit_vals clamp_Fin num_ops rnd_eval)
  have s2: "ease (schedule (c\<lparr>ease := lit 1.6\<rparr>) False now) = Fin (6305039478318695 / 4503599627370496)"
    by (simp add: schedule_ease lit_vals clamp_Fin num_ops rnd_eval)
  have s3: "ease (schedule (c\<lparr>ease := PInf\<rparr>) False now) = lit 2.8"
    by (simp add: schedule_ease lit_vals clamp_def Math_max_def Math_min_def num_ops)
  have s4: "ease (schedule (c\<lparr>ease := NaN\<rparr>) False now) = NaN"
    by (simp add: schedule_ease lit_vals clamp_def Math_max_def Math_min_def num_ops)
  from schedule_incorrect_ease [of c now] rest ms_01 s1 s2 s3 s4 show ?thesis by blast
qed

subsection \<open>Bounds of the ease\<close>

lemma reviewAll_range:
  "lit 1.3 \<le> ease c \<Longrightarrow> ease c \<le> lit 2.8 \<Longrightarrow>
     lit 1.3 \<le> ease (reviewAll c rs) \<and> ease (reviewAll c rs) \<le> lit 2.8"
proof (induction rs arbitrary: c)
  case Nil
  then show ?case by simp
next
  case (Cons r rs)
  from Cons.prems have "ease c \<noteq> NaN" by (simp add: in_range_notNaN)
  from schedule_ease_range [OF this, of "fst r" "snd r"] Cons.IH show ?case by simp
qed

lemma history_all_correct:
  "lit 1.3 \<le> ease c \<Longrightarrow> ease c \<le> lit 2.8 \<Longrightarrow> \<forall>r\<in>set rs. fst r \<Longrightarrow>
     sorted_wrt (\<le>) (map ease (history c rs))
     \<and> (\<forall>d\<in>set (history c rs). ease c \<le> ease d \<and> ease d \<le> lit 2.8)"
proof (induction rs arbitrary: c)
  case Nil
  then show ?case by (cases "ease c") (simp_all add: less_eq_number_def)
next
  case (Cons r rs)
  let ?c' = "schedule c (fst r) (snd r)"
  from Cons.prems have r: "fst r" and rs: "\<forall>r\<in>set rs. fst r" by simp_all
  from Cons.prems have nn: "ease c \<noteq> NaN" by (simp add: in_range_notNaN)
  have le: "ease c \<le> ease ?c'"
    using schedule_correct_ease(2) [OF Cons.prems(1,2)] r by simp
  have rg: "lit 1.3 \<le> ease ?c'" "ease ?c' \<le> lit 2.8"
    using schedule_ease_range [OF nn, of "fst r" "snd r"] by simp_all
  from Cons.IH [OF rg rs]
  have ih: "sorted_wrt (\<le>) (map ease (history ?c' rs))"
    and all: "\<forall>d\<in>set (history ?c' rs). ease ?c' \<le> ease d \<and> ease d \<le> lit 2.8" by simp_all
  from le all have all': "\<forall>d\<in>set (history ?c' rs). ease c \<le> ease d \<and> ease d \<le> lit 2.8"
    by (blast intro: fle_trans)
  have "ease c \<le> ease c" using Cons.prems(1,2) by (cases "ease c") (simp_all add: less_eq_number_def)
  with ih all' Cons.prems(2) show ?case by simp
qed

text \<open>
  C3. For every card whose ease is within \<open>[1.3, 2.8]\<close>, as the data model requires, and
  every finite sequence of reviews, the ease after the sequence is within
  \<open>[1.3, 2.8]\<close>; along an all-correct sequence the ease is non-decreasing and never
  exceeds \<open>2.8\<close>; an incorrect review never takes the ease below \<open>1.3\<close>.
\<close>

theorem ease_bounds:
  "lit 1.3 \<le> ease c \<and> ease c \<le> lit 2.8 \<longrightarrow>
     (lit 1.3 \<le> ease (reviewAll c rs) \<and> ease (reviewAll c rs) \<le> lit 2.8)
     \<and> ((\<forall>r\<in>set rs. fst r) \<longrightarrow>
          sorted_wrt (\<le>) (map ease (history c rs))
          \<and> (\<forall>d\<in>set (history c rs). ease d \<le> lit 2.8))
     \<and> lit 1.3 \<le> ease (schedule c False now)"
proof
  assume wf: "lit 1.3 \<le> ease c \<and> ease c \<le> lit 2.8"
  then have nn: "ease c \<noteq> NaN" by (simp add: in_range_notNaN)
  from wf reviewAll_range [of c rs] history_all_correct [of c rs]
    schedule_ease_range [OF nn, of False now]
  show "(lit 1.3 \<le> ease (reviewAll c rs) \<and> ease (reviewAll c rs) \<le> lit 2.8)
     \<and> ((\<forall>r\<in>set rs. fst r) \<longrightarrow>
          sorted_wrt (\<le>) (map ease (history c rs))
          \<and> (\<forall>d\<in>set (history c rs). ease d \<le> lit 2.8))
     \<and> lit 1.3 \<le> ease (schedule c False now)"
    by blast
qed

lemma example_reaches_upper:
  "ease (reviewAll (freshCard ''c0'' EN Vocab ''laufen'' ''to run'' 0) exampleCorrect9) = lit 2.8"
  by (simp add: exampleCorrect9_def freshCard_def schedule_ease lit_vals clamp_Fin num_ops rnd_eval)

lemma example_reaches_lower:
  "ease (reviewAll (freshCard ''c0'' EN Vocab ''laufen'' ''to run'' 0) exampleIncorrect4) = lit 1.3"
  by (simp add: exampleIncorrect4_def freshCard_def schedule_ease lit_vals clamp_Fin num_ops rnd_eval)

theorem ease_bounds_witness:
  "lit 1.3 \<le> ease (freshCard ''c0'' EN Vocab ''laufen'' ''to run'' 0)
   \<and> ease (freshCard ''c0'' EN Vocab ''laufen'' ''to run'' 0) \<le> lit 2.8
   \<and> list_all fst exampleCorrect9
   \<and> ease (reviewAll (freshCard ''c0'' EN Vocab ''laufen'' ''to run'' 0) exampleCorrect9) = lit 2.8
   \<and> ease (reviewAll (freshCard ''c0'' EN Vocab ''laufen'' ''to run'' 0) exampleCorrect9) \<le> lit 2.8
   \<and> sorted_wrt (\<le>)
        (map ease (history (freshCard ''c0'' EN Vocab ''laufen'' ''to run'' 0) exampleCorrect9))
   \<and> list_all (\<lambda>d. ease d \<le> lit 2.8)
        (history (freshCard ''c0'' EN Vocab ''laufen'' ''to run'' 0) exampleCorrect9)
   \<and> ease (reviewAll (freshCard ''c0'' EN Vocab ''laufen'' ''to run'' 0) exampleIncorrect4) = lit 1.3
   \<and> lit 1.3 \<le> ease (reviewAll (freshCard ''c0'' EN Vocab ''laufen'' ''to run'' 0) exampleIncorrect4)"
proof -
  have a: "lit 1.3 \<le> ease (freshCard ''c0'' EN Vocab ''laufen'' ''to run'' 0)
           \<and> ease (freshCard ''c0'' EN Vocab ''laufen'' ''to run'' 0) \<le> lit 2.8"
    by (simp add: freshCard_def lit_vals less_eq_number_def)
  have b: "\<forall>r\<in>set exampleCorrect9. fst r"
    by (simp add: exampleCorrect9_def)
  show ?thesis
    unfolding list_all_iff
    using a b example_reaches_upper example_reaches_lower
      ease_bounds [of "freshCard ''c0'' EN Vocab ''laufen'' ''to run'' 0" exampleCorrect9 0]
      ease_bounds [of "freshCard ''c0'' EN Vocab ''laufen'' ''to run'' 0" exampleIncorrect4 0]
    by blast
qed

text \<open>The fourteen reviews of the example, in the arithmetic of the doubles.\<close>

lemma schedule_trace_doubles:
  "reviewAll (freshCard ''c0'' EN Vocab ''laufen'' ''to run'' 0) exampleTrace14 =
     (freshCard ''c0'' EN Vocab ''laufen'' ''to run'' 0)
       \<lparr>ease := Fin (5629499534213119 / 2251799813685248), intervalDays := Fin 2,
        due := Fin 172800000, lapses := Fin 3, lastReviewed := Some 0\<rparr>"
  by (simp add: exampleTrace14_def freshCard_def schedule_def lit_vals clamp_Fin
        num_ops rnd_eval)

subsection \<open>Purity\<close>




section \<open>The pack loader\<close>

lemma cardKey_freshCard: "cardKey (freshCard i lang k f b now) = langStr lang @ ''-'' @ f"
  by (simp add: cardKey_def freshCard_def)

text \<open>The keys of the new cards depend on the language and the pack only.\<close>

lemma keys_newCards:
  "map cardKey (newCards lang pack uid clock)
     = map (\<lambda>e. langStr lang @ ''-'' @ de e) (vocab pack @ sentences pack)"
proof -
  have k: "map cardKey (map (\<lambda>(i, v). freshCard (uid i) lang K (de v) (tx v) (clock i))
                            (enumerate n xs))
             = map (\<lambda>e. langStr lang @ ''-'' @ de e) xs" for K n xs
    by (induction xs arbitrary: n) (simp_all add: cardKey_freshCard)
  show ?thesis unfolding newCards_def map_append k by simp
qed

text \<open>
  The key identifies the pair of language and front text: the four language codes have
  two characters each.
\<close>

lemma cardKey_inj:
  "cardKey c = cardKey d \<longleftrightarrow> Card.targetLang c = Card.targetLang d \<and> front c = front d"
  by (cases "Card.targetLang c"; cases "Card.targetLang d") (simp_all add: cardKey_def)

lemma filtered_eq:
  "filtered prevCards new
     = filter (\<lambda>c. \<forall>e\<in>set prevCards. \<not> (Card.targetLang e = Card.targetLang c \<and> front e = front c)) new"
proof -
  have "cardKey c \<notin> set (map cardKey prevCards)
          \<longleftrightarrow> (\<forall>e\<in>set prevCards. \<not> (Card.targetLang e = Card.targetLang c \<and> front e = front c))" for c
    by (auto simp: image_iff cardKey_inj)
  then show ?thesis by (simp add: filtered_def)
qed

lemma filtered_again:
  assumes "set (map cardKey new') \<subseteq> set (map cardKey new)"
  shows "filtered (prevCards @ filtered prevCards new) new' = []"
proof -
  have "cardKey c \<in> set (map cardKey (prevCards @ filtered prevCards new))" if c: "c \<in> set new'" for c
  proof -
    from c assms obtain d where d: "d \<in> set new" "cardKey d = cardKey c" by auto
    show ?thesis
    proof (cases "cardKey d \<in> set (map cardKey prevCards)")
      case True
      with d show ?thesis by auto
    next
      case False
      with d have "d \<in> set (filtered prevCards new)" by (simp add: filtered_def)
      then have "cardKey d \<in> cardKey ` set (filtered prevCards new)" by (rule imageI)
      with d show ?thesis by simp
    qed
  qed
  then show ?thesis by (simp add: filtered_def filter_empty_conv)
qed

lemma newCards_again:
  "filtered (prevCards @ filtered prevCards (newCards lang pack uid clock))
     (newCards lang pack uid' clock') = []"
  by (rule filtered_again) (simp only: keys_newCards subset_refl)

lemma downloadWith_Some:
  "downloadLanguagePackWith pack lang uid clock (Some p)
     = Some (p\<lparr>cards := cards p @ filtered (cards p) (newCards lang pack uid clock),
               profile := (profile p)\<lparr>Profile.targetLang := lang\<rparr>\<rparr>)"
  by (simp add: downloadLanguagePackWith_def packUpdater_def)

lemma downloadWith_None: "downloadLanguagePackWith pack lang uid clock None = None"
  by (simp add: downloadLanguagePackWith_def packUpdater_def)

lemma downloadWith_twice:
  "downloadLanguagePackWith pack lang uid' clock' (downloadLanguagePackWith pack lang uid clock prev)
     = downloadLanguagePackWith pack lang uid clock prev"
  by (cases prev) (simp_all add: downloadWith_None downloadWith_Some newCards_again)

lemma newCards_fresh:
  "c \<in> set (newCards lang pack uid clock) \<Longrightarrow>
     Card.targetLang c = lang \<and> intervalDays c = 0 \<and> ease c = Fin 2 \<and> lapses c = 0
     \<and> lastReviewed c = None \<and> (\<exists>i. due c = clock i)"
  by (auto simp: newCards_def freshCard_def)

lemma exampleData_loaded:
  "downloadLanguagePack EN exampleUid (\<lambda>_. 0) (Some (initialData ''2024-01-01'' 0))
     = Some exampleData"
  by (simp add: downloadLanguagePack_def downloadLanguagePackWith_def packUpdater_def
        filtered_def newCards_def exampleData_def exampleUid_def initialData_def
        enumerate_eq_zip)

lemma example_first_load:
  "map front (filtered (cards exampleData) (newCards ES (PACKS_API ES) (\<lambda>_. ''a'') (\<lambda>_. 1)))
     = [''Hallo'', ''bitte'', ''danke'', ''Gern geschehen.'']"
  by (simp add: filtered_def newCards_def exampleData_def freshCard_def cardKey_def
        enumerate_eq_zip)

text \<open>
  C5. Loading a pack is idempotent: a second load of the same pack for the same
  language, whatever identities and clock readings it draws, leaves the state as the
  first load made it, since its list of cards to append is empty. The cards appended
  are those new cards for which no existing card has the same language and front text;
  the existing cards stay, in order, in front of them.
\<close>

theorem pack_loading_idempotent:
  "downloadLanguagePackWith pack lang uid' clock' (downloadLanguagePackWith pack lang uid clock prev)
     = downloadLanguagePackWith pack lang uid clock prev
   \<and> filtered (cards p @ filtered (cards p) (newCards lang pack uid clock))
        (newCards lang pack uid' clock') = []
   \<and> map_option cards (downloadLanguagePackWith pack lang uid clock (Some p))
       = Some (cards p @ filtered (cards p) (newCards lang pack uid clock))
   \<and> filtered prevCards new
       = filter (\<lambda>c. \<forall>e\<in>set prevCards.
                       \<not> (Card.targetLang e = Card.targetLang c \<and> front e = front c)) new"
  using downloadWith_twice [of pack lang uid' clock' uid clock prev]
    newCards_again [of "cards p" lang pack uid clock uid' clock']
    filtered_eq [of prevCards new]
  by (simp add: downloadWith_Some)

theorem pack_loading_idempotent_witness:
  "map front (filtered (cards exampleData) (newCards ES (PACKS_API ES) (\<lambda>_. ''a'') (\<lambda>_. 1)))
     = [''Hallo'', ''bitte'', ''danke'', ''Gern geschehen.'']
   \<and> filtered (cards exampleData
                @ filtered (cards exampleData) (newCards ES (PACKS_API ES) (\<lambda>_. ''a'') (\<lambda>_. 1)))
        (newCards ES (PACKS_API ES) (\<lambda>_. ''b'') (\<lambda>_. Fin 2)) = []
   \<and> downloadLanguagePackWith (PACKS_API ES) ES (\<lambda>_. ''b'') (\<lambda>_. Fin 2)
        (downloadLanguagePackWith (PACKS_API ES) ES (\<lambda>_. ''a'') (\<lambda>_. 1) (Some exampleData))
      = downloadLanguagePackWith (PACKS_API ES) ES (\<lambda>_. ''a'') (\<lambda>_. 1) (Some exampleData)"
  using example_first_load
    pack_loading_idempotent [where pack = "PACKS_API ES" and lang = ES
      and uid' = "\<lambda>_. ''b''" and clock' = "\<lambda>_. Fin 2" and uid = "\<lambda>_. ''a''" and clock = "\<lambda>_. 1"
      and prev = "Some exampleData" and p = exampleData
      and prevCards = "[]" and new = "[]"]
  by simp

text \<open>
  C10. Loading a pack for a language sets \<open>targetLang\<close> of the profile to that language
  and changes no other field of the profile, nor the achievements or the statistics;
  the existing cards are kept and every appended card is of that language with
  \<open>intervalDays = 0\<close>, \<open>ease = 2.0\<close>, \<open>lapses = 0\<close> and a \<open>due\<close> that is a clock reading
  taken during the load, hence \<open>now\<close> when the clock reads \<open>now\<close> throughout.
\<close>

theorem pack_loading_frame:
  assumes "downloadLanguagePackWith pack lang uid clock (Some p) = Some p1"
  shows "profile p1 = (profile p)\<lparr>Profile.targetLang := lang\<rparr>
         \<and> achievements p1 = achievements p
         \<and> dailyStatsByLang p1 = dailyStatsByLang p
         \<and> take (length (cards p)) (cards p1) = cards p
         \<and> drop (length (cards p)) (cards p1) = filtered (cards p) (newCards lang pack uid clock)
         \<and> (\<forall>c\<in>set (drop (length (cards p)) (cards p1)).
               Card.targetLang c = lang \<and> intervalDays c = 0 \<and> ease c = Fin 2 \<and> lapses c = 0
               \<and> (\<exists>i. due c = clock i) \<and> ((\<forall>i. clock i = now) \<longrightarrow> due c = now))"
proof -
  from assms have p1: "p1 = p\<lparr>cards := cards p @ filtered (cards p) (newCards lang pack uid clock),
                              profile := (profile p)\<lparr>Profile.targetLang := lang\<rparr>\<rparr>"
    by (simp add: downloadWith_Some)
  have "Card.targetLang c = lang \<and> intervalDays c = 0 \<and> ease c = Fin 2 \<and> lapses c = 0
        \<and> (\<exists>i. due c = clock i) \<and> ((\<forall>i. clock i = now) \<longrightarrow> due c = now)"
    if "c \<in> set (filtered (cards p) (newCards lang pack uid clock))" for c
  proof -
    from that have "c \<in> set (newCards lang pack uid clock)" by (simp add: filtered_def)
    from newCards_fresh [OF this] show ?thesis by auto
  qed
  with p1 show ?thesis by simp
qed

theorem pack_loading_frame_witness:
  "downloadLanguagePackWith (PACKS_API ES) ES (\<lambda>_. ''a'') (\<lambda>_. Fin 7) (Some exampleData)
     = Some (exampleData\<lparr>cards := cards exampleData
                 @ filtered (cards exampleData) (newCards ES (PACKS_API ES) (\<lambda>_. ''a'') (\<lambda>_. Fin 7)),
               profile := (profile exampleData)\<lparr>Profile.targetLang := ES\<rparr>\<rparr>)
   \<and> (\<forall>i. (\<lambda>_. Fin 7) i = Fin 7)
   \<and> length (filtered (cards exampleData) (newCards ES (PACKS_API ES) (\<lambda>_. ''a'') (\<lambda>_. Fin 7))) = 4
   \<and> list_all (\<lambda>c. Card.targetLang c = ES \<and> intervalDays c = 0 \<and> ease c = Fin 2 \<and> lapses c = 0
                    \<and> due c = Fin 7)
        (filtered (cards exampleData) (newCards ES (PACKS_API ES) (\<lambda>_. ''a'') (\<lambda>_. Fin 7)))"
proof -
  have l: "downloadLanguagePackWith (PACKS_API ES) ES (\<lambda>_. ''a'') (\<lambda>_. Fin 7) (Some exampleData)
     = Some (exampleData\<lparr>cards := cards exampleData
                 @ filtered (cards exampleData) (newCards ES (PACKS_API ES) (\<lambda>_. ''a'') (\<lambda>_. Fin 7)),
               profile := (profile exampleData)\<lparr>Profile.targetLang := ES\<rparr>\<rparr>)"
    by (simp add: downloadLanguagePackWith_def packUpdater_def)
  have n: "length (filtered (cards exampleData) (newCards ES (PACKS_API ES) (\<lambda>_. ''a'') (\<lambda>_. Fin 7))) = 4"
    by (simp add: filtered_def newCards_def exampleData_def freshCard_def cardKey_def
          enumerate_eq_zip)
  from pack_loading_frame [OF l, of "Fin 7"] l n show ?thesis by (simp add: list_all_iff)
qed

section \<open>The progress ledger\<close>

text \<open>
  One run of the state update on a state whose four dictionaries are four objects gives
  the state \<open>recordReview\<close> computes.
\<close>

lemma recordReviewRef_once:
  assumes "inj (rstats prev)"
  shows "deref (fst (recordReviewRef lang today updated ok (st, prev)))
               (snd (recordReviewRef lang today updated ok (st, prev)))
           = recordReview lang today updated ok (deref st prev)"
proof -
  have "rstats prev l = rstats prev lang \<longleftrightarrow> l = lang" for l
    using assms by (auto dest: injD)
  then show ?thesis
    by (auto simp: recordReviewRef_def recordReview_def deref_def Let_def fun_eq_iff
             split: option.splits)
qed

lemma recordReviewRef_stat:
  "fst (recordReviewRef lang today updated ok (st, prev)) (rstats prev lang) today
     = Some (case st (rstats prev lang) today of
               None \<Rightarrow> \<lparr>reviewed = 0 + 1, correct = 0 + (if ok then 1 else 0),
                         wrong = 0, minutes = 0\<rparr>
             | Some s \<Rightarrow> s\<lparr>reviewed := reviewed s + 1,
                            correct := correct s + (if ok then 1 else 0)\<rparr>)"
  by (simp add: recordReviewRef_def Let_def split: option.splits)

text \<open>
  C6, where the code fails it. The state update counts a review once for every run of
  the update, not once for every review: it writes the new statistics into the
  dictionary the previous state holds, so a second run on the same previous state
  finds the review already counted and counts it again, while \<open>xp\<close>, which is copied
  with the profile, is raised once. In the example state one correct review gives
  \<open>reviewed = 1\<close>, \<open>correct = 1\<close> after one run of the update and \<open>reviewed = 2\<close>,
  \<open>correct = 2\<close>, \<open>xp = 10\<close> after the two runs of React's Strict Mode.
\<close>

theorem review_counted_once_per_run:
  "fst (runTwice (recordReviewRef lang today updated ok) (st, prev)) (rstats prev lang) today
     = Some (case st (rstats prev lang) today of
               None \<Rightarrow> \<lparr>reviewed = 0 + 1 + 1,
                         correct = 0 + (if ok then 1 else 0) + (if ok then 1 else 0),
                         wrong = 0, minutes = 0\<rparr>
             | Some s \<Rightarrow> s\<lparr>reviewed := reviewed s + 1 + 1,
                            correct := correct s + (if ok then 1 else 0) + (if ok then 1 else 0)\<rparr>)
   \<and> xp (rprofile (snd (runTwice (recordReviewRef lang today updated ok) (st, prev))))
       = xp (rprofile prev) + (if ok then Fin 10 else Fin 2)
   \<and> dailyStatsByLang
        (deref (fst (recordReviewRef EN ''2024-01-02'' (cards exampleData) True
                       (exampleStore, exampleRef)))
               (snd (recordReviewRef EN ''2024-01-02'' (cards exampleData) True
                       (exampleStore, exampleRef))))
        EN ''2024-01-02''
      = Some \<lparr>reviewed = Fin 1, correct = Fin 1, wrong = 0, minutes = 0\<rparr>
   \<and> dailyStatsByLang
        (deref (fst (runTwice (recordReviewRef EN ''2024-01-02'' (cards exampleData) True)
                       (exampleStore, exampleRef)))
               (snd (runTwice (recordReviewRef EN ''2024-01-02'' (cards exampleData) True)
                       (exampleStore, exampleRef))))
        EN ''2024-01-02''
      = Some \<lparr>reviewed = Fin 2, correct = Fin 2, wrong = 0, minutes = 0\<rparr>
   \<and> xp (profile
        (deref (fst (runTwice (recordReviewRef EN ''2024-01-02'' (cards exampleData) True)
                       (exampleStore, exampleRef)))
               (snd (runTwice (recordReviewRef EN ''2024-01-02'' (cards exampleData) True)
                       (exampleStore, exampleRef)))))
      = Fin 10"
proof -
  have g1: "fst (runTwice (recordReviewRef lang today updated ok) (st, prev)) (rstats prev lang) today
     = Some (case st (rstats prev lang) today of
               None \<Rightarrow> \<lparr>reviewed = 0 + 1 + 1,
                         correct = 0 + (if ok then 1 else 0) + (if ok then 1 else 0),
                         wrong = 0, minutes = 0\<rparr>
             | Some s \<Rightarrow> s\<lparr>reviewed := reviewed s + 1 + 1,
                            correct := correct s + (if ok then 1 else 0) + (if ok then 1 else 0)\<rparr>)"
    by (simp add: runTwice_def recordReviewRef_def Let_def split: option.splits)
  have g2: "xp (rprofile (snd (runTwice (recordReviewRef lang today updated ok) (st, prev))))
       = xp (rprofile prev) + (if ok then Fin 10 else Fin 2)"
    by (simp add: runTwice_def recordReviewRef_def Let_def)
  have e1: "dailyStatsByLang
        (deref (fst (recordReviewRef EN ''2024-01-02'' (cards exampleData) True
                       (exampleStore, exampleRef)))
               (snd (recordReviewRef EN ''2024-01-02'' (cards exampleData) True
                       (exampleStore, exampleRef))))
        EN ''2024-01-02''
      = Some \<lparr>reviewed = Fin 1, correct = Fin 1, wrong = 0, minutes = 0\<rparr>"
    by (simp add: recordReviewRef_def deref_def exampleStore_def exampleRef_def
          num_ops rnd_eval)
  have e2: "dailyStatsByLang
        (deref (fst (runTwice (recordReviewRef EN ''2024-01-02'' (cards exampleData) True)
                       (exampleStore, exampleRef)))
               (snd (runTwice (recordReviewRef EN ''2024-01-02'' (cards exampleData) True)
                       (exampleStore, exampleRef))))
        EN ''2024-01-02''
      = Some \<lparr>reviewed = Fin 2, correct = Fin 2, wrong = 0, minutes = 0\<rparr>"
    by (simp add: runTwice_def recordReviewRef_def deref_def exampleStore_def exampleRef_def num_ops rnd_eval)
  have e3: "xp (profile
        (deref (fst (runTwice (recordReviewRef EN ''2024-01-02'' (cards exampleData) True)
                       (exampleStore, exampleRef)))
               (snd (runTwice (recordReviewRef EN ''2024-01-02'' (cards exampleData) True)
                       (exampleStore, exampleRef)))))
      = Fin 10"
    by (simp add: runTwice_def recordReviewRef_def deref_def exampleStore_def exampleRef_def
          exampleData_def initialData_def num_ops rnd_eval)
  from g1 g2 e1 e2 e3 show ?thesis by blast
qed

subsection \<open>The streak\<close>

text \<open>
  C9, as the code has it. Handling a review never changes \<open>streak\<close>, \<open>bestStreak\<close> or
  \<open>lastActiveDay\<close>, whatever the day key is and whatever the last active day was.
\<close>

theorem handleReview_streak_unchanged:
  "map_option (\<lambda>s. (streak (profile s), bestStreak (profile s), lastActiveDay (profile s)))
     (handleReview data next ok clock today prev)
   = map_option (\<lambda>s. (streak (profile s), bestStreak (profile s), lastActiveDay (profile s))) prev"
  by (simp add: handleReview_def reviewUpdater_def recordReview_def Let_def
           split: option.splits)

text \<open>
  C9 as stated fails. The example state is the one the app reaches by loading the
  English pack on 1 January 2024: streak \<open>0\<close>, best streak \<open>0\<close>. A review on
  2 January, exactly one day later, leaves the streak and the best streak at \<open>0\<close> and
  the last active day at 1 January.
\<close>

theorem handleReview_streak_counterexample:
  "downloadLanguagePack EN exampleUid (\<lambda>_. 0) (Some (initialData ''2024-01-01'' 0))
     = Some exampleData
   \<and> nextCard exampleData (\<lambda>_. 1) = Some (freshCard ''c0'' EN Vocab ''laufen'' ''to run'' 0)
   \<and> map_option (\<lambda>s. (streak (profile s), bestStreak (profile s), lastActiveDay (profile s)))
        (handleReview (Some exampleData) (nextCard exampleData (\<lambda>_. 1)) True (\<lambda>_. 1)
           ''2024-01-02'' (Some exampleData))
      = Some (0, 0, ''2024-01-01'')"
proof -
  have n: "nextCard exampleData (\<lambda>_. 1) = Some (freshCard ''c0'' EN Vocab ''laufen'' ''to run'' 0)"
    by (simp add: nextCard_def dueCards_def exampleData_def initialData_def freshCard_def
          enumerate_eq_zip less_eq_number_def zero_number_def one_number_def)
  have h: "map_option (\<lambda>s. (streak (profile s), bestStreak (profile s), lastActiveDay (profile s)))
             (handleReview (Some exampleData)
                (Some (freshCard ''c0'' EN Vocab ''laufen'' ''to run'' 0)) True (\<lambda>_. 1)
                ''2024-01-02'' (Some exampleData))
           = Some (0, 0, ''2024-01-01'')"
    by (simp add: handleReview_def reviewUpdater_def recordReview_def Let_def
          exampleData_def initialData_def)
  from exampleData_loaded n h show ?thesis by simp
qed

section \<open>Backup import: no validation\<close>

text \<open>
  C8, as the code has it. An import fails exactly when \<^verbatim>\<open>JSON.parse\<close> throws, and then
  the state is left as it was; every value that parses, of whatever shape, replaces
  the state and is reported as a success.
\<close>

theorem importData_adopts_any_value:
  "importData (Some (Value v)) data = (v, Some ''Backup erfolgreich geladen!'')
   \<and> importData (Some SyntaxError) data = (data, Some ''Fehler beim Import!'')
   \<and> importData None data = (data, None)"
  by (simp add: importData_def)

text \<open>
  C8 as stated fails: a backup without \<^verbatim>\<open>profile\<close> does not have the top-level shape,
  and importing it replaces a complete state and reports success.
\<close>

theorem importData_counterexample:
  "\<not> spec_topLevelShape exampleBackupNoProfile
   \<and> fst (importData (Some (Value exampleBackupNoProfile)) examplePriorState)
       = exampleBackupNoProfile
   \<and> fst (importData (Some (Value exampleBackupNoProfile)) examplePriorState)
       \<noteq> examplePriorState
   \<and> snd (importData (Some (Value exampleBackupNoProfile)) examplePriorState)
       = Some ''Backup erfolgreich geladen!''"
  by (simp add: importData_def exampleBackupNoProfile_def examplePriorState_def)

section \<open>Backup round trip\<close>

lemma insertIndex_last:
  "\<forall>q\<in>set acc. isArrayIndex (fst q) \<and> indexValue (fst q) < indexValue k \<Longrightarrow>
     insertIndex k v acc = acc @ [(k, v)]"
  by (induction acc) simp_all

lemma setProp_last:
  assumes "fst p \<notin> set (map fst acc)" and "\<forall>q\<in>set acc. keyBefore (fst q) (fst p)"
  shows "setProp acc p = acc @ [p]"
proof (cases "isArrayIndex (fst p)")
  case True
  with assms(2) have "\<forall>q\<in>set acc. isArrayIndex (fst q) \<and> indexValue (fst q) < indexValue (fst p)"
    by (auto simp: keyBefore_def split: if_splits)
  from insertIndex_last [OF this, of "snd p"] True assms(1) show ?thesis
    by (simp add: setProp_def)
next
  case False
  with assms(1) show ?thesis by (simp add: setProp_def)
qed

lemma build_in_order:
  "distinct (map fst (acc @ ps)) \<Longrightarrow> sorted_wrt keyBefore (map fst (acc @ ps)) \<Longrightarrow>
     foldl setProp acc ps = acc @ ps"
proof (induction ps arbitrary: acc)
  case Nil
  then show ?case by simp
next
  case (Cons p ps)
  from Cons.prems have "fst p \<notin> set (map fst acc)" "\<forall>q\<in>set acc. keyBefore (fst q) (fst p)"
    by (auto simp: sorted_wrt_append)
  then have p: "setProp acc p = acc @ [p]" by (rule setProp_last)
  from Cons.prems have "distinct (map fst ((acc @ [p]) @ ps))"
    "sorted_wrt keyBefore (map fst ((acc @ [p]) @ ps))" by simp_all
  from Cons.IH [OF this] p show ?case by simp
qed

lemma names_in_order:
  "list_all (\<lambda>k. \<not> isArrayIndex k) ks \<Longrightarrow> sorted_wrt keyBefore ks"
  by (induction ks) (auto simp: keyBefore_def list_all_iff)

lemma revive_stringify: "validJS v \<Longrightarrow> revive (JSON_stringify v) = v"
proof (induction v)
  case (JArr xs)
  then have "map (revive \<circ> JSON_stringify) xs = xs"
    by (intro map_idI) (auto simp: list_all_iff)
  then show ?case by simp
next
  case (JObj ps)
  have "map (map_prod id revive \<circ> map_prod id JSON_stringify) ps = ps"
  proof (intro map_idI)
    fix p assume p: "p \<in> set ps"
    obtain k x where kx: "p = (k, x)" by (cases p)
    with p JObj.prems have "validJS x" by (force simp: list_all_iff)
    with JObj.IH [of p x] p kx show "(map_prod id revive \<circ> map_prod id JSON_stringify) p = p"
      by simp
  qed
  moreover have "foldl setProp [] ps = [] @ ps"
    using JObj.prems by (intro build_in_order) simp_all
  ultimately show ?case by simp
qed (simp_all split: if_splits)

lemmas index_eval = isArrayIndex_def isDigit_def indexValue_def keyBefore_def

lemma validJS_jsCard: "finiteCard c \<Longrightarrow> validJS (jsCard c)"
  by (cases "example c"; cases "exampleTranslation c"; cases "lastReviewed c")
     (simp_all add: jsCard_def optProp_def finiteCard_def finiteOpt_def index_eval)

lemma validJS_jsProfile: "finiteProfile p \<Longrightarrow> validJS (jsProfile p)"
  by (simp add: jsProfile_def finiteProfile_def index_eval)

lemma validJS_jsAchievement: "finiteOpt (unlockedAt a) \<Longrightarrow> validJS (jsAchievement a)"
  by (cases "unlockedAt a") (simp_all add: jsAchievement_def optProp_def finiteOpt_def index_eval)

lemma validJS_jsDailyStat: "finiteStat (Some s) \<Longrightarrow> validJS (jsDailyStat s)"
  by (simp add: jsDailyStat_def finiteStat_def index_eval)

lemma keys_dict:
  "map fst (concat (map (\<lambda>k. optProp k f (m k)) ks)) = filter (\<lambda>k. m k \<noteq> None) ks"
  by (induction ks) (auto simp: optProp_def split: option.splits)

lemma values_dict:
  "list_all (\<lambda>k. finiteStat (m k)) ks \<Longrightarrow>
     list_all validJS (map snd (concat (map (\<lambda>k. optProp k jsDailyStat (m k)) ks)))"
  by (induction ks) (auto simp: optProp_def validJS_jsDailyStat split: option.splits)

lemma validJS_jsDict:
  assumes "distinct ks" "list_all (\<lambda>k. \<not> isArrayIndex k) ks" "list_all (\<lambda>k. finiteStat (m k)) ks"
  shows "validJS (jsDict ks m)"
proof -
  from assms(2) have "list_all (\<lambda>k. \<not> isArrayIndex k) (filter (\<lambda>k. m k \<noteq> None) ks)"
    by (simp add: list_all_iff)
  then have "sorted_wrt keyBefore (filter (\<lambda>k. m k \<noteq> None) ks)"
    by (rule names_in_order)
  with assms(1) values_dict [OF assms(3)] show ?thesis
    by (simp add: jsDict_def keys_dict)
qed

lemma validJS_jsAppData:
  assumes "validAppData days x"
  shows "validJS (jsAppData days x)"
proof -
  from assms have c: "list_all validJS (map jsCard (cards x))"
    by (auto simp: validAppData_def list_all_iff validJS_jsCard)
  from assms have p: "validJS (jsProfile (profile x))"
    by (simp add: validAppData_def validJS_jsProfile)
  from assms have a: "list_all validJS (map jsAchievement (achievements x))"
    by (auto simp: validAppData_def list_all_iff validJS_jsAchievement)
  from assms have d: "validJS (jsDict (days l) (dailyStatsByLang x l))" for l
    by (cases l) (simp_all add: validAppData_def validJS_jsDict)
  from c p a d show ?thesis
    by (simp add: jsAppData_def index_eval)
qed

lemma round_trip_value:
  "validJS v \<Longrightarrow>
     importData (Some (JSON_parse (snd (exportData v today)))) prev
       = (v, Some ''Backup erfolgreich geladen!'')"
  by (simp add: importData_def JSON_parse_def exportData_def revive_stringify)

text \<open>A number that is not finite does not survive the export.\<close>

lemma not_finite_is_lost:
  "JSON_stringify (JNum NaN) = JNull" "JSON_stringify (JNum PInf) = JNull"
  by simp_all

text \<open>
  C7. Exporting a state and importing the file gives the state back: for every value
  that a state can be at run time (all numbers finite, the keys of every object
  distinct and in JavaScript's enumeration order) the import succeeds and the new state is that
  very
  value, with every string, every number and the order of all properties as they
  were. This holds in particular for the object of every value of type \<^verbatim>\<open>AppData\<close> whose
  numbers are finite.
\<close>

theorem backup_round_trip:
  "(validJS v \<longrightarrow>
      importData (Some (JSON_parse (snd (exportData v today)))) prev
        = (v, Some ''Backup erfolgreich geladen!''))
   \<and> (validAppData days x \<longrightarrow>
        validJS (jsAppData days x)
        \<and> importData (Some (JSON_parse (snd (exportData (jsAppData days x) today)))) prev
            = (jsAppData days x, Some ''Backup erfolgreich geladen!''))"
  using round_trip_value [of v today prev] validJS_jsAppData [of days x]
    round_trip_value [of "jsAppData days x" today prev]
  by blast

lemma exampleReviewed_valid: "validAppData exampleDays exampleReviewed"
  by (simp add: validAppData_def exampleDays_def exampleReviewed_def recordReview_def
        exampleData_def initialData_def freshCard_def  finiteCard_def finiteOpt_def
        finiteProfile_def finiteStat_def index_eval num_ops rnd_eval)

theorem backup_round_trip_witness:
  "validAppData exampleDays exampleReviewed
   \<and> validJS (jsAppData exampleDays exampleReviewed)
   \<and> importData
        (Some (JSON_parse (snd (exportData (jsAppData exampleDays exampleReviewed) ''2024-01-02''))))
        examplePriorState
      = (jsAppData exampleDays exampleReviewed, Some ''Backup erfolgreich geladen!'')"
  using exampleReviewed_valid
    backup_round_trip [of "jsAppData exampleDays exampleReviewed" "''2024-01-02''"
      examplePriorState exampleDays exampleReviewed]
  by blast

end
